theory Spec2Isabelle
  imports Main "HOL-Library.Char_ord" "HOL-Library.List_Lexorder" "HOL-Library.Sublist"
    "HOL-Library.Multiset"
begin

section \<open>Go strings\<close>

text \<open>
  A Go \<^verbatim>\<open>string\<close> is a sequence of bytes; \<^typ>\<open>string\<close> is a list of
  \<^typ>\<open>char\<close>, one per byte. The functions of package \<^verbatim>\<open>strings\<close> that
  \<^verbatim>\<open>cmd/github-mcp-server/main.go\<close> and the libraries it configures call are
  written out here for a separator that is not empty (the only kind the program passes).
\<close>

text \<open>
  \<^verbatim>\<open>strings.ReplaceAll(s, old, new)\<close>: every non-overlapping instance of
  \<^verbatim>\<open>old\<close>, found from the left, is replaced. With an empty \<^verbatim>\<open>old\<close> Go
  inserts \<^verbatim>\<open>new\<close> around every UTF-8 sequence; the program never passes one, and
  the model returns the string as it is there.
\<close>

fun ReplaceAll :: "string \<Rightarrow> string \<Rightarrow> string \<Rightarrow> string" where
  "ReplaceAll [] old new = []"
| "ReplaceAll (c # cs) old new =
     (if old \<noteq> [] \<and> take (length old) (c # cs) = old
      then new @ ReplaceAll (drop (length old) (c # cs)) old new
      else c # ReplaceAll cs old new)"

text \<open>
  \<^verbatim>\<open>strings.Split(s, sep)\<close> for a non-empty \<^verbatim>\<open>sep\<close>: the pieces between the
  instances of \<^verbatim>\<open>sep\<close>, one more than there are instances, nothing trimmed.
  \<open>Split_from cur s sep\<close> carries the piece being read, reversed.
\<close>

fun Split_from :: "string \<Rightarrow> string \<Rightarrow> string \<Rightarrow> string list" where
  "Split_from cur [] sep = [rev cur]"
| "Split_from cur (c # cs) sep =
     (if sep \<noteq> [] \<and> take (length sep) (c # cs) = sep
      then rev cur # Split_from [] (drop (length sep) (c # cs)) sep
      else Split_from (c # cur) cs sep)"

definition Split :: "string \<Rightarrow> string \<Rightarrow> string list" where
  "Split s sep = Split_from [] s sep"

text \<open>\<^verbatim>\<open>strings.Join(elems, sep)\<close>.\<close>

fun Join :: "string list \<Rightarrow> string \<Rightarrow> string" where
  "Join [] sep = []"
| "Join [x] sep = x"
| "Join (x # y # ys) sep = x @ sep @ Join (y # ys) sep"

text \<open>
  \<^verbatim>\<open>strings.ToUpper\<close> and \<^verbatim>\<open>strings.ToLower\<close> on the ASCII letters; every
  other byte is kept (the keys and the prefix of this program are ASCII).
\<close>

definition upper_char :: "char \<Rightarrow> char" where
  "upper_char c =
     (if CHR ''a'' \<le> c \<and> c \<le> CHR ''z'' then char_of (of_char c - (32::nat)) else c)"

definition lower_char :: "char \<Rightarrow> char" where
  "lower_char c =
     (if CHR ''A'' \<le> c \<and> c \<le> CHR ''Z'' then char_of (of_char c + (32::nat)) else c)"

definition ToUpper :: "string \<Rightarrow> string" where
  "ToUpper s = map upper_char s"

definition ToLower :: "string \<Rightarrow> string" where
  "ToLower s = map lower_char s"

section \<open>The key normalizer\<close>

text \<open>
  \<^verbatim>\<open>wordSepNormalizeFunc\<close> (main.go, lines 92 to 99): the loop over \<^verbatim>\<open>from\<close>
  replaces each separator of the list by \<^verbatim>\<open>to\<close>, one separator after the other.
  The flag set argument is not read.
\<close>

definition from_seps :: "string list" where
  "from_seps = [''_'']"

definition to_sep :: string where
  "to_sep = ''-''"

definition wordSepNormalizeFunc :: "string \<Rightarrow> string" where
  "wordSepNormalizeFunc name = fold (\<lambda>sep name. ReplaceAll name sep to_sep) from_seps name"

text \<open>
  Two spellings that differ only by separator: the same length, and at every position
  the same byte or a separator (\<^verbatim>\<open>_\<close> or \<^verbatim>\<open>-\<close>) on both sides.
\<close>

definition is_sep :: "char \<Rightarrow> bool" where
  "is_sep c = (c = CHR ''_'' \<or> c = CHR ''-'')"

fun sep_variant :: "string \<Rightarrow> string \<Rightarrow> bool" where
  "sep_variant [] [] = True"
| "sep_variant (a # as) (b # bs) = ((a = b \<or> (is_sep a \<and> is_sep b)) \<and> sep_variant as bs)"
| "sep_variant _ _ = False"

section \<open>Errors\<close>

text \<open>
  A Go \<^verbatim>\<open>error\<close> is a value: \<^verbatim>\<open>errors.New(text)\<close>, or
  \<^verbatim>\<open>fmt.Errorf("...: %w", err)\<close>, which wraps an error behind a prefix.
  \<open>Error\<close> is the method \<^verbatim>\<open>Error()\<close>, the text that \<^verbatim>\<open>%v\<close> prints.
\<close>

datatype error = errorString string | wrapError string error

fun Error :: "error \<Rightarrow> string" where
  "Error (errorString s) = s"
| "Error (wrapError msg err) = msg @ Error err"

section \<open>The process environment\<close>

text \<open>
  The environment maps a variable's name to its value (\<^verbatim>\<open>os.LookupEnv\<close>);
  \<^verbatim>\<open>os.Getenv\<close> gives the empty string for a variable that is not set.
\<close>

type_synonym environ = "string \<rightharpoonup> string"

definition Getenv :: "environ \<Rightarrow> string \<Rightarrow> string" where
  "Getenv e key = (case e key of None \<Rightarrow> [] | Some val \<Rightarrow> val)"

section \<open>Flags (package pflag)\<close>

text \<open>
  The values that flags hold and that the settings store hands out (Go's \<^verbatim>\<open>any\<close>,
  restricted to what this program produces): nothing, a string, a boolean, a list of
  strings.
\<close>

datatype any = NilValue | Str string | Bool bool | Strs "string list"

text \<open>
  A flag carries its name, its current value (the default until the command line sets
  it) and \<^verbatim>\<open>Changed\<close>, which is set when the command line gave the flag. pflag
  keeps the value behind an interface that prints it as text and the settings store
  reads that text back by the flag's type; the model keeps the typed value, which is what
  that round trip gives for the values of this program. A flag set has its
  normalization function and the map \<^verbatim>\<open>formal\<close> from normalized names to flags.
\<close>

record Flag =
  FlagName :: string
  Value :: any
  Changed :: bool

record FlagSet =
  normalizeNameFunc :: "string \<Rightarrow> string"
  formal :: "string \<rightharpoonup> Flag"

text \<open>
  \<^verbatim>\<open>AddFlag\<close> stores a flag under its normalized name (pflag panics when that name
  is taken; \<^verbatim>\<open>init\<close> defines seven names that stay distinct), and
  \<^verbatim>\<open>Lookup\<close> normalizes the name it is asked for.
\<close>

definition AddFlag :: "string \<Rightarrow> any \<Rightarrow> FlagSet \<Rightarrow> FlagSet" where
  "AddFlag name dflt fs =
     (let n = normalizeNameFunc fs name
      in fs\<lparr>formal := (formal fs)(n \<mapsto> \<lparr>FlagName = n, Value = dflt, Changed = False\<rparr>)\<rparr>)"

definition Lookup :: "FlagSet \<Rightarrow> string \<Rightarrow> Flag option" where
  "Lookup fs name = formal fs (normalizeNameFunc fs name)"

section \<open>The settings store (package viper)\<close>

text \<open>
  Of viper's layers, this program configures two: flags bound to keys
  (\<^verbatim>\<open>BindPFlag\<close>) and the automatic environment lookup (\<^verbatim>\<open>SetEnvPrefix\<close>,
  \<^verbatim>\<open>AutomaticEnv\<close>). It sets no alias, no override, no explicit environment binding,
  no configuration file, no key/value store and no default, so those layers are empty
  and left out. \<^verbatim>\<open>BindPFlag\<close> keeps a pointer to the flag: the store holds the flag's
  name in the flag set and reads the flag there when a value is asked for, so a flag
  set later is seen by the store.
\<close>

record Viper =
  envPrefix :: string
  automaticEnvApplied :: bool
  pflags :: "string \<rightharpoonup> string"

definition viper_New :: Viper where
  "viper_New = \<lparr>envPrefix = [], automaticEnvApplied = False, pflags = Map.empty\<rparr>"

text \<open>
  \<^verbatim>\<open>BindPFlag(key, flag)\<close> fails on a nil flag (the program drops the error) and
  otherwise binds the lower-cased key.
\<close>

definition BindPFlag :: "string \<Rightarrow> Flag option \<Rightarrow> Viper \<Rightarrow> Viper" where
  "BindPFlag key flag v =
     (case flag of
        None \<Rightarrow> v
      | Some f \<Rightarrow> v\<lparr>pflags := (pflags v)(ToLower key \<mapsto> FlagName f)\<rparr>)"

definition SetEnvPrefix :: "string \<Rightarrow> Viper \<Rightarrow> Viper" where
  "SetEnvPrefix p v = v\<lparr>envPrefix := p\<rparr>"

definition AutomaticEnv :: "Viper \<Rightarrow> Viper" where
  "AutomaticEnv v = v\<lparr>automaticEnvApplied := True\<rparr>"

definition mergeWithEnvPrefix :: "Viper \<Rightarrow> string \<Rightarrow> string" where
  "mergeWithEnvPrefix v k =
     (if envPrefix v \<noteq> [] then ToUpper (envPrefix v @ ''_'' @ k) else ToUpper k)"

text \<open>
  \<^verbatim>\<open>getEnv\<close>: no key replacer is configured and empty values are not allowed
  (\<^verbatim>\<open>AllowEmptyEnv\<close> is never called), so a variable set to the empty string counts
  as not set.
\<close>

definition getEnv :: "environ \<Rightarrow> string \<Rightarrow> string option" where
  "getEnv e key =
     (case e key of
        None \<Rightarrow> None
      | Some val \<Rightarrow> if val \<noteq> [] then Some val else None)"

definition bound_flag :: "Viper \<Rightarrow> FlagSet \<Rightarrow> string \<Rightarrow> Flag option" where
  "bound_flag v fs lcaseKey =
     (case pflags v lcaseKey of None \<Rightarrow> None | Some n \<Rightarrow> formal fs n)"

text \<open>
  \<^verbatim>\<open>find(lcaseKey, flagDefault = true)\<close>, for a key without the key delimiter
  \<^verbatim>\<open>.\<close> (every key of this program): a bound flag that was changed wins; then the
  environment, when the automatic lookup is on; last the bound flag's default.
\<close>

definition viper_find :: "Viper \<Rightarrow> FlagSet \<Rightarrow> environ \<Rightarrow> string \<Rightarrow> any" where
  "viper_find v fs e lcaseKey =
     (case bound_flag v fs lcaseKey of
        Some f \<Rightarrow>
          if Changed f then Value f
          else (case (if automaticEnvApplied v
                      then getEnv e (mergeWithEnvPrefix v lcaseKey) else None) of
                  Some val \<Rightarrow> Str val
                | None \<Rightarrow> Value f)
      | None \<Rightarrow>
          (case (if automaticEnvApplied v
                 then getEnv e (mergeWithEnvPrefix v lcaseKey) else None) of
             Some val \<Rightarrow> Str val
           | None \<Rightarrow> NilValue))"

definition Get :: "Viper \<Rightarrow> FlagSet \<Rightarrow> environ \<Rightarrow> string \<Rightarrow> any" where
  "Get v fs e key = viper_find v fs e (ToLower key)"

text \<open>
  The conversions of package cast, which give the zero value where they fail:
  \<^verbatim>\<open>ToString\<close> prints a boolean as \<^verbatim>\<open>true\<close> or \<^verbatim>\<open>false\<close> and cannot
  convert a list; \<^verbatim>\<open>ToBool\<close> reads a string with \<^verbatim>\<open>strconv.ParseBool\<close>.
\<close>

definition ParseBool :: "string \<Rightarrow> bool option" where
  "ParseBool s =
     (if s \<in> set [''1'', ''t'', ''T'', ''TRUE'', ''true'', ''True''] then Some True
      else if s \<in> set [''0'', ''f'', ''F'', ''FALSE'', ''false'', ''False''] then Some False
      else None)"

fun ToString :: "any \<Rightarrow> string" where
  "ToString NilValue = []"
| "ToString (Str s) = s"
| "ToString (Bool b) = (if b then ''true'' else ''false'')"
| "ToString (Strs xs) = []"

fun ToBool :: "any \<Rightarrow> bool" where
  "ToBool NilValue = False"
| "ToBool (Str s) = (case ParseBool s of Some b \<Rightarrow> b | None \<Rightarrow> False)"
| "ToBool (Bool b) = b"
| "ToBool (Strs xs) = False"

definition GetString :: "Viper \<Rightarrow> FlagSet \<Rightarrow> environ \<Rightarrow> string \<Rightarrow> string" where
  "GetString v fs e key = ToString (Get v fs e key)"

definition GetBool :: "Viper \<Rightarrow> FlagSet \<Rightarrow> environ \<Rightarrow> string \<Rightarrow> bool" where
  "GetBool v fs e key = ToBool (Get v fs e key)"

text \<open>
  \<^verbatim>\<open>UnmarshalKey(key, &list)\<close> into a \<^verbatim>\<open>[]string\<close>: viper decodes the value
  with the hook \<^verbatim>\<open>StringToSliceHookFunc(",")\<close> and weakly typed input. A list is
  taken as it is; a string is split at every comma (the empty string gives the empty
  list); nothing leaves the list as it was declared, empty; any other single value
  becomes a list of one element, a boolean printed as \<^verbatim>\<open>1\<close> or \<^verbatim>\<open>0\<close>.
\<close>

definition StringToSliceHook :: "string \<Rightarrow> string \<Rightarrow> string list" where
  "StringToSliceHook sep raw = (if raw = [] then [] else Split raw sep)"

fun decode_string_list :: "any \<Rightarrow> error + string list" where
  "decode_string_list NilValue = Inr []"
| "decode_string_list (Str raw) = Inr (StringToSliceHook '','' raw)"
| "decode_string_list (Bool b) = Inr [if b then ''1'' else ''0'']"
| "decode_string_list (Strs xs) = Inr xs"

definition UnmarshalKey :: "Viper \<Rightarrow> FlagSet \<Rightarrow> environ \<Rightarrow> string \<Rightarrow> error + string list" where
  "UnmarshalKey v fs e key = decode_string_list (Get v fs e key)"

section \<open>The stdio command\<close>

text \<open>
  The state the entry point reads: the build's version string (set by the linker), the
  persistent flags of the root command, the settings store, the environment.
\<close>

record world =
  version :: string
  flags :: FlagSet
  viper :: Viper
  env :: environ

record StdioServerConfig =
  Version :: string
  Host :: string
  Token :: string
  EnabledToolsets :: "string list"
  DynamicToolsets :: bool
  ReadOnly :: bool
  ExportTranslations :: bool
  EnableCommandLogging :: bool
  LogFilePath :: string

text \<open>
  The protocol loop \<^verbatim>\<open>ghmcp.RunStdioServer\<close> lives in another package of the
  repository. It is a parameter here: for a configuration it either never returns
  (\<open>None\<close>), or returns \<^verbatim>\<open>nil\<close> (\<open>Some None\<close>) or an error.
\<close>

type_synonym protocol_loop = "StdioServerConfig \<Rightarrow> error option option"

text \<open>
  What a run of the entry point did: \<open>returned\<close> is \<open>None\<close> while the call
  never comes back, and \<open>loop_calls\<close> lists the configurations the protocol loop was
  started with.
\<close>

record run =
  returned :: "error option option"
  loop_calls :: "StdioServerConfig list"

text \<open>\<^verbatim>\<open>stdioCmd.RunE\<close> (main.go, lines 35 to 58); its two arguments are not read.\<close>

definition stdioCmd_RunE :: "world \<Rightarrow> protocol_loop \<Rightarrow> run" where
  "stdioCmd_RunE w RunStdioServer =
     (let token = GetString (viper w) (flags w) (env w) ''personal_access_token''
      in if token = []
         then \<lparr>returned = Some (Some (errorString ''GITHUB_PERSONAL_ACCESS_TOKEN not set'')),
               loop_calls = []\<rparr>
         else (case UnmarshalKey (viper w) (flags w) (env w) ''toolsets'' of
                 Inl err \<Rightarrow>
                   \<lparr>returned = Some (Some (wrapError ''failed to unmarshal toolsets: '' err)),
                    loop_calls = []\<rparr>
               | Inr enabledToolsets \<Rightarrow>
                   (let stdioServerConfig =
                          \<lparr>Version = version w,
                           Host = GetString (viper w) (flags w) (env w) ''host'',
                           Token = token,
                           EnabledToolsets = enabledToolsets,
                           DynamicToolsets = GetBool (viper w) (flags w) (env w) ''dynamic_toolsets'',
                           ReadOnly = GetBool (viper w) (flags w) (env w) ''read-only'',
                           ExportTranslations =
                             GetBool (viper w) (flags w) (env w) ''export-translations'',
                           EnableCommandLogging =
                             GetBool (viper w) (flags w) (env w) ''enable-command-logging'',
                           LogFilePath = GetString (viper w) (flags w) (env w) ''log-file''\<rparr>
                    in \<lparr>returned = RunStdioServer stdioServerConfig,
                        loop_calls = [stdioServerConfig]\<rparr>)))"

section \<open>Package initialisation\<close>

text \<open>
  \<^verbatim>\<open>init\<close> (main.go, lines 62 to 85): the normalization function is installed
  first, then the seven persistent flags are defined and bound to their keys. The
  default of \<^verbatim>\<open>toolsets\<close> is \<^verbatim>\<open>github.DefaultTools\<close>, a variable of another
  package of the repository, taken as the parameter \<open>DefaultTools\<close>.
\<close>

definition init_flags :: "string list \<Rightarrow> FlagSet" where
  "init_flags DefaultTools =
     (AddFlag ''gh-host'' (Str [])
      (AddFlag ''export-translations'' (Bool False)
      (AddFlag ''enable-command-logging'' (Bool False)
      (AddFlag ''log-file'' (Str [])
      (AddFlag ''read-only'' (Bool False)
      (AddFlag ''dynamic-toolsets'' (Bool False)
      (AddFlag ''toolsets'' (Strs DefaultTools)
        \<lparr>normalizeNameFunc = wordSepNormalizeFunc, formal = Map.empty\<rparr>)))))))"

definition init_viper :: "FlagSet \<Rightarrow> Viper" where
  "init_viper fs =
     (BindPFlag ''host'' (Lookup fs ''gh-host'')
      (BindPFlag ''export-translations'' (Lookup fs ''export-translations'')
      (BindPFlag ''enable-command-logging'' (Lookup fs ''enable-command-logging'')
      (BindPFlag ''log-file'' (Lookup fs ''log-file'')
      (BindPFlag ''read-only'' (Lookup fs ''read-only'')
      (BindPFlag ''dynamic_toolsets'' (Lookup fs ''dynamic-toolsets'')
      (BindPFlag ''toolsets'' (Lookup fs ''toolsets'') viper_New)))))))"

text \<open>
  \<^verbatim>\<open>initConfig\<close> (main.go, lines 87 to 90). \<^verbatim>\<open>init\<close> hands it to
  \<^verbatim>\<open>cobra.OnInitialize\<close>, so it runs when a cobra command is executed and not
  before.
\<close>

definition initConfig :: "Viper \<Rightarrow> Viper" where
  "initConfig v = AutomaticEnv (SetEnvPrefix ''github'' v)"

text \<open>
  The state in which \<^verbatim>\<open>main\<close> starts: what \<^verbatim>\<open>init\<close> built, for a build's
  version string, the default toolsets and the environment of the process.
\<close>

definition package_init :: "string \<Rightarrow> string list \<Rightarrow> environ \<Rightarrow> world" where
  "package_init ver DefaultTools e =
     \<lparr>version = ver, flags = init_flags DefaultTools,
      viper = init_viper (init_flags DefaultTools), env = e\<rparr>"

text \<open>
  cobra runs the functions given to \<^verbatim>\<open>cobra.OnInitialize\<close> when a command is
  executed, before the command's \<^verbatim>\<open>RunE\<close>; \<open>initialized\<close> is the state after
  that.
\<close>

definition initialized :: "world \<Rightarrow> world" where
  "initialized w = w\<lparr>viper := initConfig (viper w)\<rparr>"

text \<open>
  What one occurrence of a flag on the command line does to the flag set
  (\<^verbatim>\<open>FlagSet.Set\<close>), with the value already read by the flag's type: the name is
  normalized, the value is stored and \<^verbatim>\<open>Changed\<close> is set. A list flag that was
  given before appends. An unknown name is an error of the parser and changes nothing.
\<close>

definition flag_Set :: "string \<Rightarrow> any \<Rightarrow> FlagSet \<Rightarrow> FlagSet" where
  "flag_Set name val fs =
     (let n = normalizeNameFunc fs name
      in case formal fs n of
           None \<Rightarrow> fs
         | Some f \<Rightarrow>
             fs\<lparr>formal := (formal fs)(n \<mapsto>
                  f\<lparr>Value := (case (Changed f, Value f, val) of
                                (True, Strs old, Strs new) \<Rightarrow> Strs (old @ new)
                              | _ \<Rightarrow> val),
                    Changed := True\<rparr>)\<rparr>)"

section \<open>Responses (package net/http)\<close>

text \<open>
  What a handler hands to its \<^verbatim>\<open>http.ResponseWriter\<close>: the headers it set, the status
  it wrote (\<open>None\<close> until \<^verbatim>\<open>WriteHeader\<close> or the first \<^verbatim>\<open>Write\<close>) and the
  bytes of the body. The first write sends status 200 when none was written; a second
  \<^verbatim>\<open>WriteHeader\<close> is ignored.
\<close>

record ResponseWriter =
  header :: "string \<rightharpoonup> string"
  status :: "nat option"
  body :: string

definition new_writer :: ResponseWriter where
  "new_writer = \<lparr>header = Map.empty, status = None, body = []\<rparr>"

definition Header_Set :: "string \<Rightarrow> string \<Rightarrow> ResponseWriter \<Rightarrow> ResponseWriter" where
  "Header_Set k val w = w\<lparr>header := (header w)(k \<mapsto> val)\<rparr>"

definition WriteHeader :: "nat \<Rightarrow> ResponseWriter \<Rightarrow> ResponseWriter" where
  "WriteHeader code w = (case status w of None \<Rightarrow> w\<lparr>status := Some code\<rparr> | Some c \<Rightarrow> w)"

definition Write :: "string \<Rightarrow> ResponseWriter \<Rightarrow> ResponseWriter" where
  "Write bytes w = (let w' = WriteHeader 200 w in w'\<lparr>body := body w' @ bytes\<rparr>)"

text \<open>\<^verbatim>\<open>fmt.Fprintln(w, s)\<close> with one operand writes it and a newline.\<close>

definition Fprintln :: "string \<Rightarrow> ResponseWriter \<Rightarrow> ResponseWriter" where
  "Fprintln s w = Write (s @ ''\<newline>'') w"

text \<open>\<^verbatim>\<open>http.Error(w, text, code)\<close>.\<close>

definition http_Error :: "string \<Rightarrow> nat \<Rightarrow> ResponseWriter \<Rightarrow> ResponseWriter" where
  "http_Error msg code w =
     Fprintln msg
       (WriteHeader code
         (Header_Set ''X-Content-Type-Options'' ''nosniff''
           (Header_Set ''Content-Type'' ''text/plain; charset=utf-8'' w)))"

record Request =
  Method :: string
  Path :: string

section \<open>JSON (package encoding/json)\<close>

text \<open>
  The Go values that \<^verbatim>\<open>toolsHandler\<close> encodes: strings, slices, structs (their
  fields under their \<^verbatim>\<open>json\<close> names, in the order of declaration) and maps with
  string keys. A Go map has no order of its own; the encoder writes its keys sorted
  byte-wise, so the model sorts the entries, whatever order the list has them in.
\<close>

datatype gov =
    GString string
  | GSlice "gov list"
  | GStruct "(string \<times> gov) list"
  | GMap "(string \<times> gov) list"

text \<open>
  The encoder escapes the quote, the backslash and, for HTML safety, the bytes
  \<^verbatim>\<open><\<close>, \<^verbatim>\<open>>\<close> and \<^verbatim>\<open>&\<close>. It also escapes control bytes and broken UTF-8;
  the catalogue has printable ASCII only, and the model keeps every other byte.
\<close>

definition escape_byte :: "char \<Rightarrow> string" where
  "escape_byte c =
     (if c = CHR 0x22 then [CHR 0x5C, CHR 0x22]
      else if c = CHR 0x5C then [CHR 0x5C, CHR 0x5C]
      else if c = CHR ''<'' then CHR 0x5C # ''u003c''
      else if c = CHR ''>'' then CHR 0x5C # ''u003e''
      else if c = CHR ''&'' then CHR 0x5C # ''u0026''
      else [c])"

definition quote :: "string \<Rightarrow> string" where
  "quote s = CHR 0x22 # concat (map escape_byte s) @ [CHR 0x22]"

definition json_member :: "string \<times> string \<Rightarrow> string" where
  "json_member kv = quote (fst kv) @ '':'' @ snd kv"

primrec marshal :: "gov \<Rightarrow> string" where
  "marshal (GString s) = quote s"
| "marshal (GSlice xs) = ''['' @ Join (map marshal xs) '','' @ '']''"
| "marshal (GStruct fs) =
     ''{'' @ Join (map json_member (map (map_prod id marshal) fs)) '','' @ ''}''"
| "marshal (GMap kvs) =
     ''{'' @ Join (map json_member (sort_key fst (map (map_prod id marshal) kvs))) '','' @ ''}''"

text \<open>\<^verbatim>\<open>json.NewEncoder(w).Encode(v)\<close> writes the encoding and a newline.\<close>

definition Encode :: "gov \<Rightarrow> ResponseWriter \<Rightarrow> ResponseWriter" where
  "Encode v w = Write (marshal v @ ''\<newline>'') w"

section \<open>The handlers\<close>

text \<open>The type \<^verbatim>\<open>Tool\<close> (main.go, lines 140 to 145) with its \<^verbatim>\<open>json\<close> tags.\<close>

record Tool =
  Name :: string
  Description :: string
  InputSpec :: gov
  OutputSpec :: gov

definition Tool_value :: "Tool \<Rightarrow> gov" where
  "Tool_value t =
     GStruct [(''name'', GString (Name t)),
              (''description'', GString (Description t)),
              (''input_spec'', InputSpec t),
              (''output_spec'', OutputSpec t)]"

text \<open>\<^verbatim>\<open>toolsHandler\<close> (main.go, lines 147 to 175); the request is not read.\<close>

definition tools :: "Tool list" where
  "tools =
     [\<lparr>Name = ''Airbnb Search'',
       Description = ''Search Airbnb listings'',
       InputSpec = GMap [(''location'', GString ''string''),
                         (''check_in'', GString ''date''),
                         (''check_out'', GString ''date'')],
       OutputSpec = GMap [(''listings'', GString ''array'')]\<rparr>,
      \<lparr>Name = ''Airbnb Listing Details'',
       Description = ''Get details for a specific listing'',
       InputSpec = GMap [(''listing_id'', GString ''string'')],
       OutputSpec = GMap [(''details'', GString ''object'')]\<rparr>]"

definition toolsHandler :: "ResponseWriter \<Rightarrow> Request \<Rightarrow> ResponseWriter" where
  "toolsHandler w r =
     Encode (GMap [(''tools'', GSlice (map Tool_value tools))])
       (Header_Set ''Content-Type'' ''application/json'' w)"

text \<open>The handler of the pattern \<^verbatim>\<open>/\<close> (main.go, lines 114 to 116).\<close>

definition rootHandler :: "ResponseWriter \<Rightarrow> Request \<Rightarrow> ResponseWriter" where
  "rootHandler w r = Fprintln ''GitHub MCP Server is running'' w"

text \<open>
  The handler of \<^verbatim>\<open>/run-stdio\<close> (main.go, lines 118 to 125). It calls the entry
  point in the handler itself, so it answers only when that call returns: \<open>response\<close>
  is \<open>None\<close> while the protocol loop runs. \<open>started\<close> lists the configurations the
  loop was started with.
\<close>

record handled =
  response :: "ResponseWriter option"
  started :: "StdioServerConfig list"

definition runStdioHandler ::
  "world \<Rightarrow> protocol_loop \<Rightarrow> ResponseWriter \<Rightarrow> Request \<Rightarrow> handled" where
  "runStdioHandler ws RunStdioServer w r =
     (let run = stdioCmd_RunE ws RunStdioServer
      in \<lparr>response =
            (case returned run of
               None \<Rightarrow> None
             | Some (Some err) \<Rightarrow>
                 Some (http_Error (''Failed to run stdio server: '' @ Error err) 500 w)
             | Some None \<Rightarrow> Some (Fprintln ''Stdio server started'' w)),
          started = loop_calls run\<rparr>)"

section \<open>The multiplexer (http.ServeMux)\<close>

text \<open>
  \<^verbatim>\<open>main\<close> registers three handlers on the default multiplexer. A pattern that ends
  in \<^verbatim>\<open>/\<close> names a subtree, any other pattern one path; a path goes to the pattern
  equal to it, or else to the longest subtree pattern that is a prefix of it.
  \<^verbatim>\<open>HandleFunc\<close> panics on a pattern that is empty or registered twice; the three
  patterns of \<^verbatim>\<open>main\<close> are neither.
\<close>

datatype handler_name = rootFunc | runStdioFunc | toolsFunc

type_synonym ServeMux = "(string \<times> handler_name) list"

definition HandleFunc :: "string \<Rightarrow> handler_name \<Rightarrow> ServeMux \<Rightarrow> ServeMux" where
  "HandleFunc pattern h mux = mux @ [(pattern, h)]"

fun longest :: "ServeMux \<Rightarrow> (string \<times> handler_name) option" where
  "longest [] = None"
| "longest (x # xs) =
     (case longest xs of
        None \<Rightarrow> Some x
      | Some y \<Rightarrow> if length (fst x) < length (fst y) then Some y else Some x)"

definition is_subtree_of :: "string \<Rightarrow> string \<Rightarrow> bool" where
  "is_subtree_of pattern path = (pattern \<noteq> [] \<and> last pattern = CHR ''/'' \<and> prefix pattern path)"

definition mux_match :: "ServeMux \<Rightarrow> string \<Rightarrow> handler_name option" where
  "mux_match mux path =
     (case map_of mux path of
        Some h \<Rightarrow> Some h
      | None \<Rightarrow> map_option snd (longest (filter (\<lambda>e. is_subtree_of (fst e) path) mux)))"

text \<open>
  \<^verbatim>\<open>path.Clean\<close> on a path that begins with a slash: empty elements and
  \<^verbatim>\<open>.\<close> are dropped, \<^verbatim>\<open>..\<close> drops the element before it (none at the root).
  \<^verbatim>\<open>cleanPath\<close> of the multiplexer roots the path, cleans it and puts a trailing
  slash back.
\<close>

fun clean_elems :: "string list \<Rightarrow> string list \<Rightarrow> string list" where
  "clean_elems out [] = rev out"
| "clean_elems out (x # xs) =
     (if x = [] \<or> x = ''.'' then clean_elems out xs
      else if x = ''..'' then clean_elems (tl out) xs
      else clean_elems (x # out) xs)"

definition path_Clean :: "string \<Rightarrow> string" where
  "path_Clean p = ''/'' @ Join (clean_elems [] (Split p ''/'')) ''/''"

definition cleanPath :: "string \<Rightarrow> string" where
  "cleanPath p =
     (if p = [] then ''/''
      else (let p1 = (if hd p \<noteq> CHR ''/'' then ''/'' @ p else p);
                np = path_Clean p1
            in if last p1 = CHR ''/'' \<and> np \<noteq> ''/''
               then (if length p1 = length np + 1 \<and> prefix np p1 then p1 else np @ ''/'')
               else np))"

text \<open>
  \<^verbatim>\<open>ServeMux.Handler\<close>: a path with no handler of its own whose subtree is registered
  is redirected to the subtree; a path that is not clean is redirected to the clean path
  (not for \<^verbatim>\<open>CONNECT\<close>); any other path goes to the handler matched, or to the
  not-found handler. The status of the redirect depends on the version of the library and
  is not part of the model. No pattern of \<^verbatim>\<open>main\<close> names a host, so the host is
  not looked at.
\<close>

datatype route = Handle handler_name | Redirect string | NotFound

definition shouldRedirect :: "ServeMux \<Rightarrow> string \<Rightarrow> bool" where
  "shouldRedirect mux path =
     (map_of mux path = None \<and> path \<noteq> [] \<and> map_of mux (path @ ''/'') \<noteq> None)"

definition mux_handler :: "ServeMux \<Rightarrow> string \<Rightarrow> route" where
  "mux_handler mux path = (case mux_match mux path of Some h \<Rightarrow> Handle h | None \<Rightarrow> NotFound)"

definition mux_Handler :: "ServeMux \<Rightarrow> Request \<Rightarrow> route" where
  "mux_Handler mux r =
     (if Method r = ''CONNECT''
      then (if shouldRedirect mux (Path r) then Redirect (Path r @ ''/'')
            else mux_handler mux (Path r))
      else (let path = cleanPath (Path r)
            in if shouldRedirect mux path then Redirect (path @ ''/'')
               else if path \<noteq> Path r then Redirect path
               else mux_handler mux (Path r)))"

text \<open>
  What the server does with one request: the reply of the handler the multiplexer
  chose (on a fresh writer), a redirect, the not-found reply, or no reply while the
  handler has not returned; and the protocol loops the request started. The request
  target \<^verbatim>\<open>*\<close> does not reach a handler: the server answers
  \<^verbatim>\<open>OPTIONS *\<close> itself, with an empty body, and the multiplexer answers 400 to
  any other method.
\<close>

datatype reply =
    Reply ResponseWriter
  | Redirected string
  | NotFound404
  | BadRequest400
  | NoReply

record served =
  reply :: reply
  loops_started :: "StdioServerConfig list"

definition ServeHTTP :: "world \<Rightarrow> protocol_loop \<Rightarrow> ServeMux \<Rightarrow> Request \<Rightarrow> served" where
  "ServeHTTP ws RunStdioServer mux r =
     (if Path r = ''*''
      then (if Method r = ''OPTIONS''
            then \<lparr>reply = Reply (Header_Set ''Content-Length'' ''0'' new_writer),
                  loops_started = []\<rparr>
            else \<lparr>reply = BadRequest400, loops_started = []\<rparr>)
      else (case mux_Handler mux r of
              Handle rootFunc \<Rightarrow>
                \<lparr>reply = Reply (rootHandler new_writer r), loops_started = []\<rparr>
            | Handle toolsFunc \<Rightarrow>
                \<lparr>reply = Reply (toolsHandler new_writer r), loops_started = []\<rparr>
            | Handle runStdioFunc \<Rightarrow>
                (let h = runStdioHandler ws RunStdioServer new_writer r
                 in \<lparr>reply = (case response h of None \<Rightarrow> NoReply | Some w \<Rightarrow> Reply w),
                     loops_started = started h\<rparr>)
            | Redirect u \<Rightarrow> \<lparr>reply = Redirected u, loops_started = []\<rparr>
            | NotFound \<Rightarrow> \<lparr>reply = NotFound404, loops_started = []\<rparr>))"

section \<open>The process\<close>

text \<open>
  \<^verbatim>\<open>fmt.Println\<close> writes its operands with a space between them and a newline at
  the end.
\<close>

definition Println :: "string list \<Rightarrow> string" where
  "Println operands = Join operands '' '' @ ''\<newline>''"

text \<open>
  \<^verbatim>\<open>main\<close> (main.go, lines 101 to 137). It reads two variables of the environment
  and nothing of the command line (\<open>args\<close> is \<^verbatim>\<open>os.Args\<close>); it does not execute the
  root command. \<^verbatim>\<open>http.ListenAndServe\<close> is a parameter: for an address it either
  serves for as long as the process lives (\<open>None\<close>) or returns an error.
  \<open>exit_code\<close> is \<open>None\<close> while the process serves, and \<open>serving\<close> holds the
  address and the multiplexer then.
\<close>

definition main_mux :: ServeMux where
  "main_mux =
     HandleFunc ''/tools'' toolsFunc
       (HandleFunc ''/run-stdio'' runStdioFunc
         (HandleFunc ''/'' rootFunc []))"

record process =
  stdout :: string
  stderr :: string
  exit_code :: "nat option"
  serving :: "(string \<times> ServeMux) option"

definition main :: "string list \<Rightarrow> environ \<Rightarrow> (string \<Rightarrow> error option) \<Rightarrow> process" where
  "main args e ListenAndServe =
     (let port = Getenv e ''PORT'';
          port = (if port = [] then ''8080'' else port);
          out = Println [''DEBUG: GITHUB_PERSONAL_ACCESS_TOKEN ='',
                         Getenv e ''GITHUB_PERSONAL_ACCESS_TOKEN'']
                @ ''Listening on port '' @ port @ ''...\<newline>''
      in case ListenAndServe ('':'' @ port) of
           None \<Rightarrow>
             \<lparr>stdout = out, stderr = [], exit_code = None,
              serving = Some ('':'' @ port, main_mux)\<rparr>
         | Some err \<Rightarrow>
             \<lparr>stdout = out,
              stderr = ''Failed to start HTTP server: '' @ Error err @ ''\<newline>'',
              exit_code = Some 1, serving = None\<rparr>)"

text \<open>
  A request to the running process: \<^verbatim>\<open>main\<close> changed neither the flags nor the
  settings store, so the handlers read the state that \<^verbatim>\<open>init\<close> built.
\<close>

definition request :: "string \<Rightarrow> string list \<Rightarrow> environ \<Rightarrow> protocol_loop \<Rightarrow> Request \<Rightarrow> served" where
  "request ver DefaultTools e RunStdioServer r =
     ServeHTTP (package_init ver DefaultTools e) RunStdioServer main_mux r"

section \<open>Requests in flight\<close>

text \<open>
  The server runs every request in a goroutine of its own, so the handlers of two
  requests can be under way together. A request to \<^verbatim>\<open>/run-stdio\<close> is waiting for
  its handler, or inside the protocol loop that its handler called, or finished with a
  reply. Two events move it on. \<open>Enter i\<close>: the handler of request \<open>i\<close> runs, up to its
  call of the protocol loop, or to its reply when the entry point fails before the call;
  this is \<^verbatim>\<open>runStdioHandler\<close> with a loop that has not returned. \<open>Return i ret\<close>:
  the loop that request \<open>i\<close> is in returns \<open>ret\<close>, and the handler replies; this is
  \<^verbatim>\<open>runStdioHandler\<close> with a loop that returns \<open>ret\<close>. What a loop returns, and
  when, comes with the event and is not decided by the model: two loops that read the
  same standard input may affect each other in any way.
\<close>

datatype phase = Waiting | InLoop StdioServerConfig | Finished ResponseWriter

datatype event = Enter nat | Return nat "error option"

definition handler_enter :: "world \<Rightarrow> Request \<Rightarrow> phase" where
  "handler_enter ws r =
     (let h = runStdioHandler ws (\<lambda>c. None) new_writer r
      in case response h of
           Some w \<Rightarrow> Finished w
         | None \<Rightarrow> (case started h of [] \<Rightarrow> Waiting | c # cs \<Rightarrow> InLoop c))"

definition handler_return :: "world \<Rightarrow> Request \<Rightarrow> error option \<Rightarrow> phase \<Rightarrow> phase" where
  "handler_return ws r ret p =
     (case response (runStdioHandler ws (\<lambda>c. Some ret) new_writer r) of
        Some w \<Rightarrow> Finished w
      | None \<Rightarrow> p)"

definition server_event ::
  "world \<Rightarrow> event \<Rightarrow> (Request \<times> phase) list \<Rightarrow> (Request \<times> phase) list" where
  "server_event ws ev rps =
     (case ev of
        Enter i \<Rightarrow>
          (if i < length rps \<and> snd (rps ! i) = Waiting
           then rps[i := (fst (rps ! i), handler_enter ws (fst (rps ! i)))]
           else rps)
      | Return i ret \<Rightarrow>
          (if i < length rps
           then (case snd (rps ! i) of
                   InLoop c \<Rightarrow>
                     rps[i := (fst (rps ! i), handler_return ws (fst (rps ! i)) ret (InLoop c))]
                 | _ \<Rightarrow> rps)
           else rps))"

definition run_events ::
  "world \<Rightarrow> event list \<Rightarrow> (Request \<times> phase) list \<Rightarrow> (Request \<times> phase) list" where
  "run_events ws events rps = fold (server_event ws) events rps"

definition active_loops :: "(Request \<times> phase) list \<Rightarrow> nat" where
  "active_loops rps = length (filter (\<lambda>rp. case snd rp of InLoop c \<Rightarrow> True | _ \<Rightarrow> False) rps)"

section \<open>Properties\<close>

lemma ReplaceAll_char:
  "ReplaceAll s [a] [b] = map (\<lambda>c. if c = a then b else c) s"
  by (induction s) auto

lemma wordSepNormalizeFunc_map:
  "wordSepNormalizeFunc name = map (\<lambda>c. if c = CHR ''_'' then CHR ''-'' else c) name"
  by (simp add: wordSepNormalizeFunc_def from_seps_def to_sep_def ReplaceAll_char)

lemma wordSepNormalizeFunc_idem:
  "wordSepNormalizeFunc (wordSepNormalizeFunc k) = wordSepNormalizeFunc k"
  by (simp add: wordSepNormalizeFunc_map)

lemma sep_variant_normalize:
  "sep_variant k1 k2 \<Longrightarrow> wordSepNormalizeFunc k1 = wordSepNormalizeFunc k2"
  by (induction k1 k2 rule: sep_variant.induct)
     (auto simp: wordSepNormalizeFunc_map is_sep_def)

subsection \<open>The state that init builds\<close>

lemma formal_init_flags:
  "formal (init_flags D) =
     [''toolsets'' \<mapsto> \<lparr>FlagName = ''toolsets'', Value = Strs D, Changed = False\<rparr>,
      ''dynamic-toolsets'' \<mapsto>
        \<lparr>FlagName = ''dynamic-toolsets'', Value = Bool False, Changed = False\<rparr>,
      ''read-only'' \<mapsto> \<lparr>FlagName = ''read-only'', Value = Bool False, Changed = False\<rparr>,
      ''log-file'' \<mapsto> \<lparr>FlagName = ''log-file'', Value = Str [], Changed = False\<rparr>,
      ''enable-command-logging'' \<mapsto>
        \<lparr>FlagName = ''enable-command-logging'', Value = Bool False, Changed = False\<rparr>,
      ''export-translations'' \<mapsto>
        \<lparr>FlagName = ''export-translations'', Value = Bool False, Changed = False\<rparr>,
      ''gh-host'' \<mapsto> \<lparr>FlagName = ''gh-host'', Value = Str [], Changed = False\<rparr>]"
  by (simp add: init_flags_def AddFlag_def wordSepNormalizeFunc_map Let_def)

lemma normalize_init_flags: "normalizeNameFunc (init_flags D) = wordSepNormalizeFunc"
  by (simp add: init_flags_def AddFlag_def Let_def)

lemma pflags_init_viper:
  "pflags (init_viper (init_flags D)) =
     [''toolsets'' \<mapsto> ''toolsets'',
      ''dynamic_toolsets'' \<mapsto> ''dynamic-toolsets'',
      ''read-only'' \<mapsto> ''read-only'',
      ''log-file'' \<mapsto> ''log-file'',
      ''enable-command-logging'' \<mapsto> ''enable-command-logging'',
      ''export-translations'' \<mapsto> ''export-translations'',
      ''host'' \<mapsto> ''gh-host'']"
  by (simp add: init_viper_def Lookup_def formal_init_flags normalize_init_flags
      wordSepNormalizeFunc_map BindPFlag_def viper_New_def ToLower_def lower_char_def)

lemma init_viper_env:
  "automaticEnvApplied (init_viper (init_flags D)) = False"
  "envPrefix (init_viper (init_flags D)) = []"
  by (simp_all add: init_viper_def Lookup_def formal_init_flags normalize_init_flags
      wordSepNormalizeFunc_map BindPFlag_def viper_New_def)

lemma initConfig_fields:
  "automaticEnvApplied (initConfig v) = True"
  "envPrefix (initConfig v) = ''github''"
  "pflags (initConfig v) = pflags v"
  by (simp_all add: initConfig_def AutomaticEnv_def SetEnvPrefix_def)

lemma bound_key_cases:
  assumes "pflags (init_viper (init_flags D)) k = Some n"
  shows "(k, n) \<in> set [(''toolsets'', ''toolsets''), (''dynamic_toolsets'', ''dynamic-toolsets''),
      (''read-only'', ''read-only''), (''log-file'', ''log-file''),
      (''enable-command-logging'', ''enable-command-logging''),
      (''export-translations'', ''export-translations''), (''host'', ''gh-host'')]"
  using assms unfolding pflags_init_viper by (auto split: if_splits)

lemma bound_key_lower:
  assumes "pflags (init_viper (init_flags D)) k = Some n"
  shows "ToLower k = k"
  using bound_key_cases [OF assms] by (auto simp: ToLower_def lower_char_def)

lemma ToUpper_github: "ToUpper ''github_'' = ''GITHUB_''"
  by code_simp

lemma mergeWithEnvPrefix_initConfig:
  "mergeWithEnvPrefix (initConfig v) k = ''GITHUB_'' @ ToUpper k"
proof -
  have "ToUpper (''github_'' @ k) = ToUpper ''github_'' @ ToUpper k"
    unfolding ToUpper_def by (rule map_append)
  then show ?thesis
    by (simp add: mergeWithEnvPrefix_def initConfig_fields ToUpper_github)
qed

lemma find_changed:
  "bound_flag v fs k = Some f \<Longrightarrow> Changed f \<Longrightarrow> viper_find v fs e k = Value f"
  by (simp add: viper_find_def)

lemma find_env:
  "bound_flag v fs k = Some f \<Longrightarrow> \<not> Changed f \<Longrightarrow> automaticEnvApplied v \<Longrightarrow>
   e (mergeWithEnvPrefix v k) = Some val \<Longrightarrow> val \<noteq> [] \<Longrightarrow> viper_find v fs e k = Str val"
  by (simp add: viper_find_def getEnv_def)

lemma find_default:
  "bound_flag v fs k = Some f \<Longrightarrow> \<not> Changed f \<Longrightarrow>
   e (mergeWithEnvPrefix v k) = None \<or> e (mergeWithEnvPrefix v k) = Some [] \<Longrightarrow>
   viper_find v fs e k = Value f"
  by (auto simp: viper_find_def getEnv_def)

lemma ToUpper_keys:
  "ToUpper ''personal_access_token'' = ''PERSONAL_ACCESS_TOKEN''"
  "ToUpper ''toolsets'' = ''TOOLSETS''"
  "ToUpper ''host'' = ''HOST''"
  "ToUpper ''dynamic_toolsets'' = ''DYNAMIC_TOOLSETS''"
  "ToUpper ''read-only'' = ''READ-ONLY''"
  "ToUpper ''export-translations'' = ''EXPORT-TRANSLATIONS''"
  "ToUpper ''enable-command-logging'' = ''ENABLE-COMMAND-LOGGING''"
  "ToUpper ''log-file'' = ''LOG-FILE''"
  by code_simp+

lemma RunE_command_path:
  assumes "tok \<noteq> []"
  shows "stdioCmd_RunE
           (initialized (package_init ver D [''GITHUB_PERSONAL_ACCESS_TOKEN'' \<mapsto> tok]))
           RunStdioServer =
         \<lparr>returned = RunStdioServer
            \<lparr>Version = ver, Host = [], Token = tok, EnabledToolsets = D,
             DynamicToolsets = False, ReadOnly = False, ExportTranslations = False,
             EnableCommandLogging = False, LogFilePath = []\<rparr>,
          loop_calls =
            [\<lparr>Version = ver, Host = [], Token = tok, EnabledToolsets = D,
              DynamicToolsets = False, ReadOnly = False, ExportTranslations = False,
              EnableCommandLogging = False, LogFilePath = []\<rparr>]\<rparr>"
  using assms
  by (simp add: stdioCmd_RunE_def initialized_def package_init_def GetString_def GetBool_def
      UnmarshalKey_def Get_def viper_find_def bound_flag_def initConfig_fields pflags_init_viper
      formal_init_flags getEnv_def mergeWithEnvPrefix_initConfig ToUpper_keys ToLower_def
      lower_char_def Let_def)

lemma RunE_main_path:
  "stdioCmd_RunE (package_init ver D e) RunStdioServer =
     \<lparr>returned = Some (Some (errorString ''GITHUB_PERSONAL_ACCESS_TOKEN not set'')),
      loop_calls = []\<rparr>"
  by (simp add: stdioCmd_RunE_def package_init_def GetString_def Get_def viper_find_def
      bound_flag_def pflags_init_viper init_viper_env ToLower_def lower_char_def)

subsection \<open>The missing credential\<close>

text \<open>
  C1. When the settings store resolves \<^verbatim>\<open>personal_access_token\<close> to the empty
  string, \<^verbatim>\<open>stdioCmd.RunE\<close> returns the error
  \<^verbatim>\<open>GITHUB_PERSONAL_ACCESS_TOKEN not set\<close> and the protocol loop is not called:
  the list of its calls is empty, whatever the loop would have done. And in any state,
  every configuration the loop is called with carries the resolved token, which is not
  empty.
\<close>

theorem missing_token_no_loop:
  "(GetString (viper w) (flags w) (env w) ''personal_access_token'' = [] \<longrightarrow>
      stdioCmd_RunE w RunStdioServer =
        \<lparr>returned = Some (Some (errorString ''GITHUB_PERSONAL_ACCESS_TOKEN not set'')),
         loop_calls = []\<rparr>) \<and>
   (\<forall>c \<in> set (loop_calls (stdioCmd_RunE w RunStdioServer)).
      Token c = GetString (viper w) (flags w) (env w) ''personal_access_token'' \<and>
      Token c \<noteq> [])"
  by (simp add: stdioCmd_RunE_def Let_def split: sum.split)

theorem missing_token_no_loop_witness:
  "GetString (viper (initialized (package_init ''version'' [''all''] Map.empty)))
     (flags (initialized (package_init ''version'' [''all''] Map.empty)))
     (env (initialized (package_init ''version'' [''all''] Map.empty)))
     ''personal_access_token'' = [] \<and>
   stdioCmd_RunE (initialized (package_init ''version'' [''all''] Map.empty)) (\<lambda>c. None) =
     \<lparr>returned = Some (Some (errorString ''GITHUB_PERSONAL_ACCESS_TOKEN not set'')),
      loop_calls = []\<rparr> \<and>
   map Token (loop_calls (stdioCmd_RunE
     (initialized (package_init ''version'' [''all'']
        [''GITHUB_PERSONAL_ACCESS_TOKEN'' \<mapsto> ''tok123''])) (\<lambda>c. None))) = [''tok123'']"
proof -
  have h: "GetString (viper (initialized (package_init ''version'' [''all''] Map.empty)))
     (flags (initialized (package_init ''version'' [''all''] Map.empty)))
     (env (initialized (package_init ''version'' [''all''] Map.empty)))
     ''personal_access_token'' = []"
    by (simp add: initialized_def package_init_def GetString_def Get_def viper_find_def
        bound_flag_def pflags_init_viper initConfig_fields getEnv_def ToLower_def
        lower_char_def)
  show ?thesis
    using h
      missing_token_no_loop
        [of "initialized (package_init ''version'' [''all''] Map.empty)" "\<lambda>c. None"]
      missing_token_no_loop
        [of "initialized (package_init ''version'' [''all'']
               [''GITHUB_PERSONAL_ACCESS_TOKEN'' \<mapsto> ''tok123''])" "\<lambda>c. None"]
    by (simp add: RunE_command_path)
qed

subsection \<open>The toolset list\<close>

lemma Split_from_no_sep:
  "c \<notin> set x \<Longrightarrow> Split_from cur (x @ rest) [c] = Split_from (rev x @ cur) rest [c]"
  by (induction x arbitrary: cur) auto

lemma Split_from_sep: "Split_from cur (c # rest) [c] = rev cur # Split_from [] rest [c]"
  by simp

lemma Split_from_Join:
  "xs \<noteq> [] \<Longrightarrow> \<forall>x\<in>set xs. c \<notin> set x \<Longrightarrow>
   Split_from cur (Join xs [c]) [c] = (rev cur @ hd xs) # tl xs"
proof (induction xs "[c]" arbitrary: cur rule: Join.induct)
  case 1
  then show ?case by simp
next
  case (2 x)
  then show ?case using Split_from_no_sep [of c x cur "[]"] by simp
next
  case (3 x y ys)
  have "Split_from cur (x @ c # Join (y # ys) [c]) [c]
        = Split_from (rev x @ cur) (c # Join (y # ys) [c]) [c]"
    using 3(3) Split_from_no_sep [of c x cur] by simp
  also have "\<dots> = (rev cur @ x) # Split_from [] (Join (y # ys) [c]) [c]"
    by simp
  also have "Split_from [] (Join (y # ys) [c]) [c] = y # ys"
    using 3(1) [of "[]"] 3(3) by simp
  finally show ?case by simp
qed

lemma Split_Join:
  "xs \<noteq> [] \<Longrightarrow> \<forall>x\<in>set xs. c \<notin> set x \<Longrightarrow> Split (Join xs [c]) [c] = xs"
  by (simp add: Split_def Split_from_Join)

lemma Join_empty: "xs \<noteq> [] \<Longrightarrow> xs \<noteq> [[]] \<Longrightarrow> sep \<noteq> [] \<Longrightarrow> Join xs sep \<noteq> []"
  by (induction xs sep rule: Join.induct) auto

lemma toolsets_bound:
  "bound_flag (initConfig (init_viper (init_flags D))) (init_flags D) ''toolsets''
   = Some \<lparr>FlagName = ''toolsets'', Value = Strs D, Changed = False\<rparr>"
  by (simp add: bound_flag_def initConfig_fields pflags_init_viper formal_init_flags)

lemma toolsets_env_name:
  "mergeWithEnvPrefix (initConfig v) ''toolsets'' = ''GITHUB_TOOLSETS''"
proof -
  have "ToUpper ''toolsets'' = ''TOOLSETS''" by code_simp
  then show ?thesis by (simp add: mergeWithEnvPrefix_initConfig)
qed

lemma toolsets_lower: "ToLower ''toolsets'' = ''toolsets''"
  by (simp add: ToLower_def lower_char_def)

lemma UnmarshalKey_toolsets_env:
  assumes "e ''GITHUB_TOOLSETS'' = Some raw" and "raw \<noteq> []"
  shows "UnmarshalKey (initConfig (init_viper (init_flags D))) (init_flags D) e ''toolsets''
         = Inr (Split raw '','')"
proof -
  have "viper_find (initConfig (init_viper (init_flags D))) (init_flags D) e ''toolsets'' = Str raw"
    using find_env [OF toolsets_bound, of D e raw] assms
    by (simp add: initConfig_fields toolsets_env_name)
  then show ?thesis
    using assms(2) by (simp add: UnmarshalKey_def Get_def toolsets_lower StringToSliceHook_def)
qed

lemma UnmarshalKey_toolsets_default:
  assumes "e ''GITHUB_TOOLSETS'' = None \<or> e ''GITHUB_TOOLSETS'' = Some []"
  shows "UnmarshalKey (initConfig (init_viper (init_flags D))) (init_flags D) e ''toolsets''
         = Inr D"
proof -
  have "viper_find (initConfig (init_viper (init_flags D))) (init_flags D) e ''toolsets'' = Strs D"
    using find_default [OF toolsets_bound, of D e] assms
    by (simp add: toolsets_env_name)
  then show ?thesis
    by (simp add: UnmarshalKey_def Get_def toolsets_lower)
qed

lemma token_initialized:
  assumes "e ''GITHUB_PERSONAL_ACCESS_TOKEN'' = Some tok" and "tok \<noteq> []"
  shows "GetString (initConfig (init_viper (init_flags D))) fs e ''personal_access_token'' = tok"
  using assms
  by (simp add: GetString_def Get_def viper_find_def bound_flag_def initConfig_fields
      pflags_init_viper getEnv_def mergeWithEnvPrefix_initConfig ToUpper_keys ToLower_def
      lower_char_def)

lemma RunE_enabled_toolsets:
  assumes "GetString (viper w) (flags w) (env w) ''personal_access_token'' \<noteq> []"
    and "UnmarshalKey (viper w) (flags w) (env w) ''toolsets'' = Inr ts"
  shows "map EnabledToolsets (loop_calls (stdioCmd_RunE w RunStdioServer)) = [ts]"
  using assms by (simp add: stdioCmd_RunE_def Let_def)

lemma RunE_initialized_toolsets:
  assumes "e ''GITHUB_PERSONAL_ACCESS_TOKEN'' = Some tok" and "tok \<noteq> []"
    and "UnmarshalKey (initConfig (init_viper (init_flags D))) (init_flags D) e ''toolsets''
         = Inr ts"
  shows "map EnabledToolsets
           (loop_calls (stdioCmd_RunE (initialized (package_init ver D e)) RunStdioServer))
         = [ts]"
proof (rule RunE_enabled_toolsets)
  show "GetString (viper (initialized (package_init ver D e)))
          (flags (initialized (package_init ver D e)))
          (env (initialized (package_init ver D e))) ''personal_access_token'' \<noteq> []"
    using token_initialized [of e tok D "init_flags D"] assms(1,2)
    by (simp add: initialized_def package_init_def)
  show "UnmarshalKey (viper (initialized (package_init ver D e)))
          (flags (initialized (package_init ver D e)))
          (env (initialized (package_init ver D e))) ''toolsets'' = Inr ts"
    using assms(3) by (simp add: initialized_def package_init_def)
qed

text \<open>
  C2. In the configuration that \<^verbatim>\<open>init\<close> and \<^verbatim>\<open>initConfig\<close> build, with the
  \<^verbatim>\<open>toolsets\<close> flag not given on the command line: when the environment has
  \<^verbatim>\<open>GITHUB_TOOLSETS=a,b,c\<close>, \<^verbatim>\<open>viper.UnmarshalKey("toolsets", ...)\<close> gives the
  list a, b, c, in this order; more generally a non-empty list of names without a comma,
  joined by commas, comes back as it was; when the variable is not set (or empty), the
  list is \<^verbatim>\<open>github.DefaultTools\<close>. And that list is the one \<^verbatim>\<open>stdioCmd.RunE\<close>
  resolves: with a token in the environment, the protocol loop is called once, with
  \<^verbatim>\<open>EnabledToolsets\<close> equal to a, b, c in the first case, to the list joined in the
  second, to the default in the third.
\<close>

theorem toolsets_from_environment_or_default:
  "(e ''GITHUB_TOOLSETS'' = Some ''a,b,c'' \<longrightarrow>
      UnmarshalKey (initConfig (init_viper (init_flags D))) (init_flags D) e ''toolsets''
        = Inr [''a'', ''b'', ''c'']) \<and>
   (xs \<noteq> [] \<and> xs \<noteq> [[]] \<and> (\<forall>x\<in>set xs. CHR '','' \<notin> set x) \<and>
    e ''GITHUB_TOOLSETS'' = Some (Join xs '','') \<longrightarrow>
      UnmarshalKey (initConfig (init_viper (init_flags D))) (init_flags D) e ''toolsets''
        = Inr xs) \<and>
   (e ''GITHUB_TOOLSETS'' = None \<or> e ''GITHUB_TOOLSETS'' = Some [] \<longrightarrow>
      UnmarshalKey (initConfig (init_viper (init_flags D))) (init_flags D) e ''toolsets''
        = Inr D) \<and>
   (e ''GITHUB_PERSONAL_ACCESS_TOKEN'' = Some tok \<and> tok \<noteq> [] \<longrightarrow>
      (e ''GITHUB_TOOLSETS'' = Some ''a,b,c'' \<longrightarrow>
         map EnabledToolsets
           (loop_calls (stdioCmd_RunE (initialized (package_init ver D e)) RunStdioServer))
         = [[''a'', ''b'', ''c'']]) \<and>
      (xs \<noteq> [] \<and> xs \<noteq> [[]] \<and> (\<forall>x\<in>set xs. CHR '','' \<notin> set x) \<and>
       e ''GITHUB_TOOLSETS'' = Some (Join xs '','') \<longrightarrow>
         map EnabledToolsets
           (loop_calls (stdioCmd_RunE (initialized (package_init ver D e)) RunStdioServer))
         = [xs]) \<and>
      (e ''GITHUB_TOOLSETS'' = None \<or> e ''GITHUB_TOOLSETS'' = Some [] \<longrightarrow>
         map EnabledToolsets
           (loop_calls (stdioCmd_RunE (initialized (package_init ver D e)) RunStdioServer))
         = [D]))"
proof -
  have u1: "e ''GITHUB_TOOLSETS'' = Some ''a,b,c'' \<Longrightarrow>
      UnmarshalKey (initConfig (init_viper (init_flags D))) (init_flags D) e ''toolsets''
        = Inr [''a'', ''b'', ''c'']"
    using UnmarshalKey_toolsets_env [of e "''a,b,c''" D] by (simp add: Split_def)
  have u2: "xs \<noteq> [] \<and> xs \<noteq> [[]] \<and> (\<forall>x\<in>set xs. CHR '','' \<notin> set x) \<and>
    e ''GITHUB_TOOLSETS'' = Some (Join xs '','') \<Longrightarrow>
      UnmarshalKey (initConfig (init_viper (init_flags D))) (init_flags D) e ''toolsets''
        = Inr xs"
  proof -
    assume a: "xs \<noteq> [] \<and> xs \<noteq> [[]] \<and> (\<forall>x\<in>set xs. CHR '','' \<notin> set x) \<and>
      e ''GITHUB_TOOLSETS'' = Some (Join xs '','')"
    then have "Join xs '','' \<noteq> []" using Join_empty [of xs "'',''"] by simp
    with a show ?thesis
      using UnmarshalKey_toolsets_env [of e "Join xs '',''" D] Split_Join [of xs "CHR '',''"]
      by simp
  qed
  have u3: "e ''GITHUB_TOOLSETS'' = None \<or> e ''GITHUB_TOOLSETS'' = Some [] \<Longrightarrow>
      UnmarshalKey (initConfig (init_viper (init_flags D))) (init_flags D) e ''toolsets''
        = Inr D"
    by (rule UnmarshalKey_toolsets_default)
  show ?thesis
    using u1 u2 u3 RunE_initialized_toolsets [of e tok D _ ver RunStdioServer]
    by blast
qed

theorem toolsets_from_environment_or_default_witness:
  "UnmarshalKey (initConfig (init_viper (init_flags [''all''])))
     (init_flags [''all'']) [''GITHUB_TOOLSETS'' \<mapsto> ''a,b,c''] ''toolsets''
     = Inr [''a'', ''b'', ''c''] \<and>
   Join [''repos'', ''issues''] '','' = ''repos,issues'' \<and>
   UnmarshalKey (initConfig (init_viper (init_flags [''all''])))
     (init_flags [''all'']) [''GITHUB_TOOLSETS'' \<mapsto> ''repos,issues''] ''toolsets''
     = Inr [''repos'', ''issues''] \<and>
   UnmarshalKey (initConfig (init_viper (init_flags [''all''])))
     (init_flags [''all'']) Map.empty ''toolsets'' = Inr [''all''] \<and>
   map EnabledToolsets
     (loop_calls (stdioCmd_RunE
        (initialized (package_init ''version'' [''all'']
           [''GITHUB_PERSONAL_ACCESS_TOKEN'' \<mapsto> ''tok123'', ''GITHUB_TOOLSETS'' \<mapsto> ''a,b,c'']))
        (\<lambda>c. None)))
     = [[''a'', ''b'', ''c'']] \<and>
   map EnabledToolsets
     (loop_calls (stdioCmd_RunE
        (initialized (package_init ''version'' [''all'']
           [''GITHUB_PERSONAL_ACCESS_TOKEN'' \<mapsto> ''tok123'']))
        (\<lambda>c. None)))
     = [[''all'']]"
  using toolsets_from_environment_or_default
          [of "[''GITHUB_TOOLSETS'' \<mapsto> ''a,b,c'']" "[''all'']" "[''a'', ''b'', ''c'']"]
        toolsets_from_environment_or_default
          [of "[''GITHUB_TOOLSETS'' \<mapsto> ''repos,issues'']" "[''all'']" "[''repos'', ''issues'']"]
        toolsets_from_environment_or_default [of Map.empty "[''all'']" "[]"]
        toolsets_from_environment_or_default
          [of "[''GITHUB_PERSONAL_ACCESS_TOKEN'' \<mapsto> ''tok123'', ''GITHUB_TOOLSETS'' \<mapsto> ''a,b,c'']"
              "[''all'']" "[]" "''tok123''" "''version''" "\<lambda>c. None"]
        toolsets_from_environment_or_default
          [of "[''GITHUB_PERSONAL_ACCESS_TOKEN'' \<mapsto> ''tok123'']"
              "[''all'']" "[]" "''tok123''" "''version''" "\<lambda>c. None"]
  by simp

subsection \<open>Precedence\<close>

lemma accessors_of_value:
  assumes "viper_find v fs e (ToLower k) = x"
  shows "GetString v fs e k =
           (case x of Str s \<Rightarrow> s | Bool b \<Rightarrow> (if b then ''true'' else ''false'')
            | Strs xs \<Rightarrow> [] | NilValue \<Rightarrow> []) \<and>
         GetBool v fs e k =
           (case x of Bool b \<Rightarrow> b
            | Str s \<Rightarrow> s \<in> set [''1'', ''t'', ''T'', ''TRUE'', ''true'', ''True'']
            | Strs xs \<Rightarrow> False | NilValue \<Rightarrow> False) \<and>
         UnmarshalKey v fs e k =
           Inr (case x of Strs xs \<Rightarrow> xs
                | Str s \<Rightarrow> (if s = [] then [] else Split s '','')
                | Bool b \<Rightarrow> [if b then ''1'' else ''0''] | NilValue \<Rightarrow> [])"
  using assms
  by (cases x)
     (simp_all add: GetString_def GetBool_def UnmarshalKey_def Get_def ParseBool_def
        StringToSliceHook_def)

text \<open>
  C3. In the configuration that \<^verbatim>\<open>init\<close> and \<^verbatim>\<open>initConfig\<close> build, for every
  key \<open>k\<close> that \<^verbatim>\<open>init\<close> binds to a flag, and for any state \<open>fs\<close> of the flag
  set that holds that flag. When the command line gave the flag, the three typed
  accessors give the flag's value, whatever the environment holds: a string flag its
  string, a boolean flag its boolean, a list flag its list (and the conversions of the
  library across types, written out below). When the flag was not given and the variable
  \<^verbatim>\<open>GITHUB_\<close> followed by the upper-cased key has a non-empty value, the accessors
  give that value and not the default: the string as it is; true exactly for the
  spellings \<^verbatim>\<open>1 t T TRUE true True\<close>; the value split at every comma, so a list of
  names joined by commas comes back as the list. When the variable is not set or empty,
  they give the flag's default.
\<close>

theorem flag_over_environment_over_default:
  assumes "pflags (init_viper (init_flags D)) k = Some n" and "formal fs n = Some f"
  shows "(Changed f \<or> e (''GITHUB_'' @ ToUpper k) = None \<or> e (''GITHUB_'' @ ToUpper k) = Some []
          \<longrightarrow>
            GetString (initConfig (init_viper (init_flags D))) fs e k =
              (case Value f of Str s \<Rightarrow> s | Bool b \<Rightarrow> (if b then ''true'' else ''false'')
               | Strs xs \<Rightarrow> [] | NilValue \<Rightarrow> []) \<and>
            GetBool (initConfig (init_viper (init_flags D))) fs e k =
              (case Value f of Bool b \<Rightarrow> b
               | Str s \<Rightarrow> s \<in> set [''1'', ''t'', ''T'', ''TRUE'', ''true'', ''True'']
               | Strs xs \<Rightarrow> False | NilValue \<Rightarrow> False) \<and>
            UnmarshalKey (initConfig (init_viper (init_flags D))) fs e k =
              Inr (case Value f of Strs xs \<Rightarrow> xs
                   | Str s \<Rightarrow> (if s = [] then [] else Split s '','')
                   | Bool b \<Rightarrow> [if b then ''1'' else ''0''] | NilValue \<Rightarrow> [])) \<and>
         (\<not> Changed f \<and> e (''GITHUB_'' @ ToUpper k) = Some val \<and> val \<noteq> [] \<longrightarrow>
            GetString (initConfig (init_viper (init_flags D))) fs e k = val \<and>
            GetBool (initConfig (init_viper (init_flags D))) fs e k
              = (val \<in> set [''1'', ''t'', ''T'', ''TRUE'', ''true'', ''True'']) \<and>
            UnmarshalKey (initConfig (init_viper (init_flags D))) fs e k = Inr (Split val '','') \<and>
            (\<forall>xs. xs \<noteq> [] \<and> (\<forall>x\<in>set xs. CHR '','' \<notin> set x) \<and> val = Join xs '','' \<longrightarrow>
               UnmarshalKey (initConfig (init_viper (init_flags D))) fs e k = Inr xs))"
proof -
  let ?V = "initConfig (init_viper (init_flags D))"
  have low: "ToLower k = k" using assms(1) by (rule bound_key_lower)
  have b: "bound_flag ?V fs k = Some f"
    using assms by (simp add: bound_flag_def initConfig_fields)
  have m: "mergeWithEnvPrefix ?V k = ''GITHUB_'' @ ToUpper k"
    by (rule mergeWithEnvPrefix_initConfig)
  have a: "automaticEnvApplied ?V" by (simp add: initConfig_fields)
  have c1: "Changed f \<Longrightarrow> viper_find ?V fs e (ToLower k) = Value f"
    using find_changed [OF b] low by simp
  have c2: "\<not> Changed f \<Longrightarrow> e (''GITHUB_'' @ ToUpper k) = Some val \<Longrightarrow> val \<noteq> [] \<Longrightarrow>
            viper_find ?V fs e (ToLower k) = Str val"
    using find_env [OF b _ a, of e val] m low by simp
  have c3: "\<not> Changed f \<Longrightarrow>
            e (''GITHUB_'' @ ToUpper k) = None \<or> e (''GITHUB_'' @ ToUpper k) = Some [] \<Longrightarrow>
            viper_find ?V fs e (ToLower k) = Value f"
    using find_default [OF b, of e] m low by simp
  have p1: "Changed f \<or> e (''GITHUB_'' @ ToUpper k) = None \<or> e (''GITHUB_'' @ ToUpper k) = Some []
            \<Longrightarrow> viper_find ?V fs e (ToLower k) = Value f"
    using c1 c3 by blast
  have p2: "\<not> Changed f \<and> e (''GITHUB_'' @ ToUpper k) = Some val \<and> val \<noteq> [] \<longrightarrow>
            GetString ?V fs e k = val \<and>
            GetBool ?V fs e k = (val \<in> set [''1'', ''t'', ''T'', ''TRUE'', ''true'', ''True'']) \<and>
            UnmarshalKey ?V fs e k = Inr (Split val '','') \<and>
            (\<forall>xs. xs \<noteq> [] \<and> (\<forall>x\<in>set xs. CHR '','' \<notin> set x) \<and> val = Join xs '','' \<longrightarrow>
               UnmarshalKey ?V fs e k = Inr xs)"
  proof (intro impI)
    assume h: "\<not> Changed f \<and> e (''GITHUB_'' @ ToUpper k) = Some val \<and> val \<noteq> []"
    then have v: "viper_find ?V fs e (ToLower k) = Str val" using c2 by simp
    have u: "UnmarshalKey ?V fs e k = Inr (Split val '','')"
      using accessors_of_value [OF v] h by simp
    have "\<forall>xs. xs \<noteq> [] \<and> (\<forall>x\<in>set xs. CHR '','' \<notin> set x) \<and> val = Join xs '','' \<longrightarrow>
               Split val '','' = xs"
      using Split_Join [of _ "CHR '',''"] by simp
    with u accessors_of_value [OF v]
    show "GetString ?V fs e k = val \<and>
            GetBool ?V fs e k = (val \<in> set [''1'', ''t'', ''T'', ''TRUE'', ''true'', ''True'']) \<and>
            UnmarshalKey ?V fs e k = Inr (Split val '','') \<and>
            (\<forall>xs. xs \<noteq> [] \<and> (\<forall>x\<in>set xs. CHR '','' \<notin> set x) \<and> val = Join xs '','' \<longrightarrow>
               UnmarshalKey ?V fs e k = Inr xs)"
      by simp
  qed
  show ?thesis
    using accessors_of_value [OF p1] p2 by blast
qed

theorem flag_over_environment_over_default_witness:
  "pflags (init_viper (init_flags [''all''])) ''read-only'' = Some ''read-only'' \<and>
   formal (flag_Set ''read-only'' (Bool False) (init_flags [''all''])) ''read-only''
     = Some \<lparr>FlagName = ''read-only'', Value = Bool False, Changed = True\<rparr> \<and>
   GetBool (initConfig (init_viper (init_flags [''all''])))
     (flag_Set ''read-only'' (Bool False) (init_flags [''all'']))
     [''GITHUB_READ-ONLY'' \<mapsto> ''true''] ''read-only'' = False \<and>
   formal (init_flags [''all'']) ''read-only''
     = Some \<lparr>FlagName = ''read-only'', Value = Bool False, Changed = False\<rparr> \<and>
   GetBool (initConfig (init_viper (init_flags [''all''])))
     (init_flags [''all'']) [''GITHUB_READ-ONLY'' \<mapsto> ''true''] ''read-only'' = True \<and>
   GetBool (initConfig (init_viper (init_flags [''all''])))
     (init_flags [''all'']) Map.empty ''read-only'' = False \<and>
   pflags (init_viper (init_flags [''all''])) ''toolsets'' = Some ''toolsets'' \<and>
   formal (flag_Set ''toolsets'' (Strs [''repos'']) (init_flags [''all''])) ''toolsets''
     = Some \<lparr>FlagName = ''toolsets'', Value = Strs [''repos''], Changed = True\<rparr> \<and>
   UnmarshalKey (initConfig (init_viper (init_flags [''all''])))
     (flag_Set ''toolsets'' (Strs [''repos'']) (init_flags [''all'']))
     [''GITHUB_TOOLSETS'' \<mapsto> ''issues,users''] ''toolsets'' = Inr [''repos''] \<and>
   formal (init_flags [''all'']) ''toolsets''
     = Some \<lparr>FlagName = ''toolsets'', Value = Strs [''all''], Changed = False\<rparr> \<and>
   UnmarshalKey (initConfig (init_viper (init_flags [''all''])))
     (init_flags [''all'']) [''GITHUB_TOOLSETS'' \<mapsto> ''issues,users''] ''toolsets''
     = Inr [''issues'', ''users''] \<and>
   pflags (init_viper (init_flags [''all''])) ''host'' = Some ''gh-host'' \<and>
   formal (init_flags [''all'']) ''gh-host''
     = Some \<lparr>FlagName = ''gh-host'', Value = Str [], Changed = False\<rparr> \<and>
   GetString (initConfig (init_viper (init_flags [''all''])))
     (init_flags [''all'']) [''GITHUB_HOST'' \<mapsto> ''ghe.example.com''] ''host''
     = ''ghe.example.com'' \<and>
   GetString (initConfig (init_viper (init_flags [''all''])))
     (init_flags [''all'']) Map.empty ''host'' = []"
proof -
  have p1: "pflags (init_viper (init_flags [''all''])) ''read-only'' = Some ''read-only''"
    by (simp add: pflags_init_viper)
  have f1: "formal (flag_Set ''read-only'' (Bool False) (init_flags [''all''])) ''read-only''
     = Some \<lparr>FlagName = ''read-only'', Value = Bool False, Changed = True\<rparr>"
    by (simp add: flag_Set_def Let_def normalize_init_flags wordSepNormalizeFunc_map
        formal_init_flags)
  have g1: "formal (init_flags [''all'']) ''read-only''
     = Some \<lparr>FlagName = ''read-only'', Value = Bool False, Changed = False\<rparr>"
    by (simp add: formal_init_flags)
  have p2: "pflags (init_viper (init_flags [''all''])) ''host'' = Some ''gh-host''"
    by (simp add: pflags_init_viper)
  have f2: "formal (init_flags [''all'']) ''gh-host''
     = Some \<lparr>FlagName = ''gh-host'', Value = Str [], Changed = False\<rparr>"
    by (simp add: formal_init_flags)
  have p3: "pflags (init_viper (init_flags [''all''])) ''toolsets'' = Some ''toolsets''"
    by (simp add: pflags_init_viper)
  have f3: "formal (flag_Set ''toolsets'' (Strs [''repos'']) (init_flags [''all''])) ''toolsets''
     = Some \<lparr>FlagName = ''toolsets'', Value = Strs [''repos''], Changed = True\<rparr>"
    by (simp add: flag_Set_def Let_def normalize_init_flags wordSepNormalizeFunc_map
        formal_init_flags)
  have g3: "formal (init_flags [''all'']) ''toolsets''
     = Some \<lparr>FlagName = ''toolsets'', Value = Strs [''all''], Changed = False\<rparr>"
    by (simp add: formal_init_flags)
  have s: "Split ''issues,users'' '','' = [''issues'', ''users'']"
    by (simp add: Split_def)
  show ?thesis
    using p1 f1 g1 p2 f2 p3 f3 g3
      flag_over_environment_over_default [OF p1 f1, of "[''GITHUB_READ-ONLY'' \<mapsto> ''true'']"]
      flag_over_environment_over_default
        [OF p1 g1, of "[''GITHUB_READ-ONLY'' \<mapsto> ''true'']" "''true''"]
      flag_over_environment_over_default [OF p1 g1, of Map.empty]
      flag_over_environment_over_default
        [OF p3 f3, of "[''GITHUB_TOOLSETS'' \<mapsto> ''issues,users'']"]
      flag_over_environment_over_default
        [OF p3 g3, of "[''GITHUB_TOOLSETS'' \<mapsto> ''issues,users'']" "''issues,users''"]
      flag_over_environment_over_default
        [OF p2 f2, of "[''GITHUB_HOST'' \<mapsto> ''ghe.example.com'']" "''ghe.example.com''"]
      flag_over_environment_over_default [OF p2 f2, of Map.empty]
    by (simp add: ToUpper_keys s)
qed

subsection \<open>The key normalizer\<close>

lemma flags_after_dynamic_toolsets:
  "formal (flag_Set ''dynamic-toolsets'' (Bool True) (init_flags D)) ''dynamic-toolsets''
   = Some \<lparr>FlagName = ''dynamic-toolsets'', Value = Bool True, Changed = True\<rparr>"
  by (simp add: flag_Set_def Let_def normalize_init_flags wordSepNormalizeFunc_map
        formal_init_flags)

text \<open>
  C4, as the claim states it, fails for the settings store: the typed accessors look a key
  up as it is written (lower-cased), the normalizer is not applied to it. With
  \<^verbatim>\<open>--dynamic-toolsets\<close> given on the command line, the key
  \<^verbatim>\<open>dynamic_toolsets\<close> (the one \<^verbatim>\<open>init\<close> binds and \<^verbatim>\<open>RunE\<close> reads) resolves
  to true and the spelling \<^verbatim>\<open>dynamic-toolsets\<close> to false.
\<close>

theorem separator_spellings_counterexample:
  "sep_variant ''dynamic_toolsets'' ''dynamic-toolsets'' \<and>
   GetBool (initConfig (init_viper (init_flags [''all''])))
     (flag_Set ''dynamic-toolsets'' (Bool True) (init_flags [''all'']))
     Map.empty ''dynamic_toolsets'' = True \<and>
   GetBool (initConfig (init_viper (init_flags [''all''])))
     (flag_Set ''dynamic-toolsets'' (Bool True) (init_flags [''all'']))
     Map.empty ''dynamic-toolsets'' = False"
  by (simp add: is_sep_def GetBool_def Get_def viper_find_def bound_flag_def initConfig_fields
      pflags_init_viper flags_after_dynamic_toolsets getEnv_def ToLower_def lower_char_def)

text \<open>
  C4, amended. \<^verbatim>\<open>wordSepNormalizeFunc\<close> replaces every underscore by a hyphen and is
  idempotent. It is installed on the flag sets of the command: on a flag set that
  normalizes with it, two spellings that differ only by separator normalize to the same
  name, look up the same flag, and set the same flag from the command line.
\<close>

theorem normalizer_idempotent_on_flag_names:
  assumes "normalizeNameFunc fs = wordSepNormalizeFunc"
  shows "wordSepNormalizeFunc k = map (\<lambda>c. if c = CHR ''_'' then CHR ''-'' else c) k \<and>
         wordSepNormalizeFunc (wordSepNormalizeFunc k) = wordSepNormalizeFunc k \<and>
         (sep_variant k1 k2 \<longrightarrow>
            wordSepNormalizeFunc k1 = wordSepNormalizeFunc k2 \<and>
            Lookup fs k1 = Lookup fs k2 \<and>
            flag_Set k1 val fs = flag_Set k2 val fs)"
  using assms sep_variant_normalize [of k1 k2]
  by (simp add: wordSepNormalizeFunc_map Lookup_def flag_Set_def Let_def)

theorem normalizer_idempotent_on_flag_names_witness:
  "normalizeNameFunc (init_flags [''all'']) = wordSepNormalizeFunc \<and>
   sep_variant ''dynamic_toolsets'' ''dynamic-toolsets'' \<and>
   wordSepNormalizeFunc ''dynamic_toolsets'' = ''dynamic-toolsets'' \<and>
   wordSepNormalizeFunc ''dynamic-toolsets'' = ''dynamic-toolsets'' \<and>
   Lookup (init_flags [''all'']) ''dynamic_toolsets''
     = Some \<lparr>FlagName = ''dynamic-toolsets'', Value = Bool False, Changed = False\<rparr> \<and>
   Lookup (init_flags [''all'']) ''dynamic-toolsets''
     = Lookup (init_flags [''all'']) ''dynamic_toolsets'' \<and>
   flag_Set ''dynamic_toolsets'' (Bool True) (init_flags [''all''])
     = flag_Set ''dynamic-toolsets'' (Bool True) (init_flags [''all''])"
proof -
  have n: "normalizeNameFunc (init_flags [''all'']) = wordSepNormalizeFunc"
    by (rule normalize_init_flags)
  have s: "sep_variant ''dynamic_toolsets'' ''dynamic-toolsets''"
    by (simp add: is_sep_def)
  have l: "Lookup (init_flags [''all'']) ''dynamic_toolsets''
     = Some \<lparr>FlagName = ''dynamic-toolsets'', Value = Bool False, Changed = False\<rparr>"
    by (simp add: Lookup_def n wordSepNormalizeFunc_map formal_init_flags)
  show ?thesis
    using n s l
      normalizer_idempotent_on_flag_names
        [OF n, of "''dynamic_toolsets''" "''dynamic_toolsets''" "''dynamic-toolsets''" "Bool True"]
    by (simp add: wordSepNormalizeFunc_map)
qed

subsection \<open>Routes and replies\<close>

lemma cleanPath_registered:
  "cleanPath ''/tools'' = ''/tools''" "cleanPath ''/run-stdio'' = ''/run-stdio''"
  by code_simp+

lemma map_of_main_mux:
  "map_of main_mux p =
     (if p = ''/'' then Some rootFunc else if p = ''/run-stdio'' then Some runStdioFunc
      else if p = ''/tools'' then Some toolsFunc else None)"
  by (simp add: main_mux_def HandleFunc_def)

lemma no_redirect_main_mux: "shouldRedirect main_mux p = False"
  by (auto simp: shouldRedirect_def map_of_main_mux)

lemma route_run_stdio:
  "Path r = ''/run-stdio'' \<Longrightarrow> mux_Handler main_mux r = Handle runStdioFunc"
  by (simp add: mux_Handler_def no_redirect_main_mux cleanPath_registered mux_handler_def
      mux_match_def map_of_main_mux)

lemma http_Error_new_writer:
  "http_Error msg code new_writer =
     \<lparr>header = [''Content-Type'' \<mapsto> ''text/plain; charset=utf-8'',
                ''X-Content-Type-Options'' \<mapsto> ''nosniff''],
      status = Some code, body = msg @ ''\<newline>''\<rparr>"
  by (simp add: http_Error_def Fprintln_def Write_def WriteHeader_def Header_Set_def
      new_writer_def)

lemma Fprintln_new_writer:
  "Fprintln s new_writer = \<lparr>header = Map.empty, status = Some 200, body = s @ ''\<newline>''\<rparr>"
  by (simp add: Fprintln_def Write_def WriteHeader_def new_writer_def)

subsection \<open>The tools endpoint\<close>

text \<open>
  The encoding of a map does not depend on the order in which its entries are listed:
  two lists with the same entries, the keys distinct, encode to the same bytes.
\<close>

lemma filter_key_singleton:
  "distinct (map f xs) \<Longrightarrow> k \<in> set xs \<Longrightarrow> filter (\<lambda>x. f k = f x) xs = [k]"
proof (induction xs)
  case Nil
  then show ?case by simp
next
  case (Cons a xs)
  show ?case
  proof (cases "a = k")
    case True
    then have "filter (\<lambda>x. f k = f x) xs = []"
      using Cons.prems(1) by (auto simp: filter_empty_conv image_iff)
    with True show ?thesis by simp
  next
    case False
    then have "k \<in> set xs" using Cons.prems(2) by simp
    moreover have "f a \<noteq> f k" using Cons.prems(1) \<open>k \<in> set xs\<close> by auto
    ultimately show ?thesis using Cons by auto
  qed
qed

lemma sort_key_permutation:
  assumes "mset ys = mset xs" and "distinct (map f xs)"
  shows "sort_key f ys = sort_key f xs"
proof (rule properties_for_sort_key)
  show "mset (sort_key f xs) = mset ys" using assms(1) by simp
  show "sorted (map f (sort_key f xs))" by simp
  fix k assume "k \<in> set (sort_key f xs)"
  then have kx: "k \<in> set xs" by simp
  then have ky: "k \<in> set ys" using assms(1) by (metis mset_eq_setD)
  have dy: "distinct (map f ys)"
    using assms by (metis distinct_map mset_eq_imp_distinct_iff mset_eq_setD)
  have ds: "distinct (map f (sort_key f xs))"
    using assms(2) by (simp add: distinct_map)
  show "filter (\<lambda>x. f k = f x) (sort_key f xs) = filter (\<lambda>x. f k = f x) ys"
    using filter_key_singleton [OF ds, of k] filter_key_singleton [OF dy ky] kx by simp
qed

lemma marshal_GMap_order:
  assumes "mset kvs' = mset kvs" and "distinct (map fst kvs)"
  shows "marshal (GMap kvs') = marshal (GMap kvs)"
proof -
  have m: "mset (map (map_prod id marshal) kvs') = mset (map (map_prod id marshal) kvs)"
    using assms(1) by (metis mset_map)
  have d: "distinct (map fst (map (map_prod id marshal) kvs))"
    using assms(2) by (simp add: comp_def)
  show ?thesis
    using sort_key_permutation [OF m d] by simp
qed

lemma route_tools: "Path r = ''/tools'' \<Longrightarrow> mux_Handler main_mux r = Handle toolsFunc"
  by (simp add: mux_Handler_def no_redirect_main_mux cleanPath_registered mux_handler_def
      mux_match_def map_of_main_mux)

lemma toolsHandler_reply:
  \<open>toolsHandler new_writer r =
     \<lparr>header = [''Content-Type'' \<mapsto> ''application/json''], status = Some 200,
      body = ''{"tools":[{"name":"Airbnb Search","description":"Search Airbnb listings","input_spec":{"check_in":"date","check_out":"date","location":"string"},"output_spec":{"listings":"array"}},{"name":"Airbnb Listing Details","description":"Get details for a specific listing","input_spec":{"listing_id":"string"},"output_spec":{"details":"object"}}]}\<newline>''\<rparr>\<close>
  by (simp add: toolsHandler_def Encode_def Write_def WriteHeader_def Header_Set_def
      new_writer_def tools_def Tool_value_def json_member_def quote_def escape_byte_def)

text \<open>
  C5. Every request whose path is \<^verbatim>\<open>/tools\<close>, with any method, gets status 200, the
  content type \<^verbatim>\<open>application/json\<close> and one fixed body: an object whose only key
  \<^verbatim>\<open>tools\<close> holds the two descriptors in the order of the source, each with
  \<^verbatim>\<open>name\<close>, \<^verbatim>\<open>description\<close>, \<^verbatim>\<open>input_spec\<close> and \<^verbatim>\<open>output_spec\<close>.
  The request starts no protocol loop, and the reply depends neither on the request nor
  on the build, the environment or the loop: any two calls give the same bytes.
\<close>

theorem tools_endpoint_fixed_json:
  \<open>Path r = ''/tools'' \<Longrightarrow> Path r' = ''/tools'' \<Longrightarrow>
   request ver D e RunStdioServer r =
     \<lparr>reply = Reply
        \<lparr>header = [''Content-Type'' \<mapsto> ''application/json''], status = Some 200,
         body = ''{"tools":[{"name":"Airbnb Search","description":"Search Airbnb listings","input_spec":{"check_in":"date","check_out":"date","location":"string"},"output_spec":{"listings":"array"}},{"name":"Airbnb Listing Details","description":"Get details for a specific listing","input_spec":{"listing_id":"string"},"output_spec":{"details":"object"}}]}\<newline>''\<rparr>,
      loops_started = []\<rparr> \<and>
   request ver' D' e' RunStdioServer' r' = request ver D e RunStdioServer r\<close>
  by (simp add: request_def ServeHTTP_def route_tools toolsHandler_reply)

theorem tools_endpoint_fixed_json_witness:
  \<open>Path \<lparr>Method = ''GET'', Path = ''/tools''\<rparr> = ''/tools'' \<and>
   Path \<lparr>Method = ''POST'', Path = ''/tools''\<rparr> = ''/tools'' \<and>
   request ''version'' [''all''] Map.empty (\<lambda>c. None) \<lparr>Method = ''GET'', Path = ''/tools''\<rparr> =
     \<lparr>reply = Reply
        \<lparr>header = [''Content-Type'' \<mapsto> ''application/json''], status = Some 200,
         body = ''{"tools":[{"name":"Airbnb Search","description":"Search Airbnb listings","input_spec":{"check_in":"date","check_out":"date","location":"string"},"output_spec":{"listings":"array"}},{"name":"Airbnb Listing Details","description":"Get details for a specific listing","input_spec":{"listing_id":"string"},"output_spec":{"details":"object"}}]}\<newline>''\<rparr>,
      loops_started = []\<rparr> \<and>
   request ''v2'' [] [''GITHUB_PERSONAL_ACCESS_TOKEN'' \<mapsto> ''tok123''] (\<lambda>c. Some None)
       \<lparr>Method = ''POST'', Path = ''/tools''\<rparr>
     = request ''version'' [''all''] Map.empty (\<lambda>c. None) \<lparr>Method = ''GET'', Path = ''/tools''\<rparr>\<close>
  using tools_endpoint_fixed_json
    [of "\<lparr>Method = ''GET'', Path = ''/tools''\<rparr>" "\<lparr>Method = ''POST'', Path = ''/tools''\<rparr>"
        "''version''" "[''all'']" Map.empty "\<lambda>c. None"
        "''v2''" "[]" "[''GITHUB_PERSONAL_ACCESS_TOKEN'' \<mapsto> ''tok123'']" "\<lambda>c. Some None"]
  by simp

subsection \<open>The trigger endpoint\<close>

text \<open>
  C6. A request whose path is \<^verbatim>\<open>/run-stdio\<close> calls the entry point inside the
  handler. When the call returns an error, the reply is status 500 with the body
  \<^verbatim>\<open>Failed to run stdio server:\<close> followed by the error's text; when it returns
  \<^verbatim>\<open>nil\<close>, the reply is status 200 with the body \<^verbatim>\<open>Stdio server started\<close>;
  while the call has not returned, there is no reply. In every case the request yields a
  reply or none and nothing else: the handler ends no process, and the loops it started
  are those of the entry point.
\<close>

theorem run_stdio_reports_outcome:
  assumes "Path r = ''/run-stdio''"
  shows "(returned (stdioCmd_RunE ws RunStdioServer) = Some (Some err) \<longrightarrow>
            reply (ServeHTTP ws RunStdioServer main_mux r) =
              Reply \<lparr>header = [''Content-Type'' \<mapsto> ''text/plain; charset=utf-8'',
                                ''X-Content-Type-Options'' \<mapsto> ''nosniff''],
                     status = Some 500,
                     body = ''Failed to run stdio server: '' @ Error err @ ''\<newline>''\<rparr>) \<and>
         (returned (stdioCmd_RunE ws RunStdioServer) = Some None \<longrightarrow>
            reply (ServeHTTP ws RunStdioServer main_mux r) =
              Reply \<lparr>header = Map.empty, status = Some 200,
                     body = ''Stdio server started\<newline>''\<rparr>) \<and>
         (returned (stdioCmd_RunE ws RunStdioServer) = None \<longrightarrow>
            reply (ServeHTTP ws RunStdioServer main_mux r) = NoReply) \<and>
         loops_started (ServeHTTP ws RunStdioServer main_mux r)
           = loop_calls (stdioCmd_RunE ws RunStdioServer)"
  using assms
  by (simp add: ServeHTTP_def route_run_stdio runStdioHandler_def Let_def
      http_Error_new_writer Fprintln_new_writer)

theorem run_stdio_reports_outcome_witness:
  "Path \<lparr>Method = ''POST'', Path = ''/run-stdio''\<rparr> = ''/run-stdio'' \<and>
   reply (ServeHTTP (package_init ''version'' [''all''] Map.empty) (\<lambda>c. Some None) main_mux
            \<lparr>Method = ''POST'', Path = ''/run-stdio''\<rparr>) =
     Reply \<lparr>header = [''Content-Type'' \<mapsto> ''text/plain; charset=utf-8'',
                       ''X-Content-Type-Options'' \<mapsto> ''nosniff''],
            status = Some 500,
            body = ''Failed to run stdio server: GITHUB_PERSONAL_ACCESS_TOKEN not set\<newline>''\<rparr> \<and>
   reply (ServeHTTP
            (initialized (package_init ''version'' [''all'']
               [''GITHUB_PERSONAL_ACCESS_TOKEN'' \<mapsto> ''tok123'']))
            (\<lambda>c. Some (Some (errorString ''stdin closed''))) main_mux
            \<lparr>Method = ''POST'', Path = ''/run-stdio''\<rparr>) =
     Reply \<lparr>header = [''Content-Type'' \<mapsto> ''text/plain; charset=utf-8'',
                       ''X-Content-Type-Options'' \<mapsto> ''nosniff''],
            status = Some 500,
            body = ''Failed to run stdio server: stdin closed\<newline>''\<rparr> \<and>
   reply (ServeHTTP
            (initialized (package_init ''version'' [''all'']
               [''GITHUB_PERSONAL_ACCESS_TOKEN'' \<mapsto> ''tok123'']))
            (\<lambda>c. Some None) main_mux \<lparr>Method = ''POST'', Path = ''/run-stdio''\<rparr>) =
     Reply \<lparr>header = Map.empty, status = Some 200, body = ''Stdio server started\<newline>''\<rparr> \<and>
   reply (ServeHTTP
            (initialized (package_init ''version'' [''all'']
               [''GITHUB_PERSONAL_ACCESS_TOKEN'' \<mapsto> ''tok123'']))
            (\<lambda>c. None) main_mux \<lparr>Method = ''POST'', Path = ''/run-stdio''\<rparr>) = NoReply"
proof -
  let ?r = "\<lparr>Method = ''POST'', Path = ''/run-stdio''\<rparr>"
  let ?w = "initialized (package_init ''version'' [''all'']
               [''GITHUB_PERSONAL_ACCESS_TOKEN'' \<mapsto> ''tok123''])"
  have p: "Path ?r = ''/run-stdio''" by simp
  show ?thesis
    using p
      run_stdio_reports_outcome [OF p, of "package_init ''version'' [''all''] Map.empty"
        "\<lambda>c. Some None" "errorString ''GITHUB_PERSONAL_ACCESS_TOKEN not set''"]
      run_stdio_reports_outcome [OF p, of ?w "\<lambda>c. Some (Some (errorString ''stdin closed''))"
        "errorString ''stdin closed''"]
      run_stdio_reports_outcome [OF p, of ?w "\<lambda>c. Some None"]
      run_stdio_reports_outcome [OF p, of ?w "\<lambda>c. None"]
    by (simp add: RunE_main_path RunE_command_path)
qed

subsection \<open>The stdio subcommand\<close>

text \<open>
  C7, at the input of the claim: the command line \<^verbatim>\<open>github-mcp-server stdio\<close> with
  \<^verbatim>\<open>GITHUB_PERSONAL_ACCESS_TOKEN=tok123\<close>. \<^verbatim>\<open>main\<close> does not execute the root
  command: it prints the token, serves HTTP on port 8080 and starts no protocol loop.
  A request to \<^verbatim>\<open>/run-stdio\<close> does not start one either: \<^verbatim>\<open>initConfig\<close> has not
  run, the environment is not consulted, and the reply is the missing-credential error.
  The last conjunct is what the claim expects, and what \<^verbatim>\<open>RunE\<close> does once
  \<^verbatim>\<open>initConfig\<close> has run: the loop starts with the token \<^verbatim>\<open>tok123\<close>, the default
  toolsets and \<^verbatim>\<open>ReadOnly\<close> false.
\<close>

theorem stdio_subcommand_not_dispatched:
  "main [''github-mcp-server'', ''stdio''] [''GITHUB_PERSONAL_ACCESS_TOKEN'' \<mapsto> ''tok123'']
        (\<lambda>addr. None) =
     \<lparr>stdout = ''DEBUG: GITHUB_PERSONAL_ACCESS_TOKEN = tok123\<newline>Listening on port 8080...\<newline>'',
      stderr = [], exit_code = None, serving = Some ('':8080'', main_mux)\<rparr> \<and>
   request ''version'' [''all''] [''GITHUB_PERSONAL_ACCESS_TOKEN'' \<mapsto> ''tok123'']
           (\<lambda>c. Some None) \<lparr>Method = ''GET'', Path = ''/run-stdio''\<rparr> =
     \<lparr>reply = Reply
        \<lparr>header = [''Content-Type'' \<mapsto> ''text/plain; charset=utf-8'',
                   ''X-Content-Type-Options'' \<mapsto> ''nosniff''],
         status = Some 500,
         body = ''Failed to run stdio server: GITHUB_PERSONAL_ACCESS_TOKEN not set\<newline>''\<rparr>,
      loops_started = []\<rparr> \<and>
   stdioCmd_RunE
     (initialized (package_init ''version'' [''all'']
        [''GITHUB_PERSONAL_ACCESS_TOKEN'' \<mapsto> ''tok123'']))
     (\<lambda>c. Some None) =
     \<lparr>returned = Some None,
      loop_calls =
        [\<lparr>Version = ''version'', Host = [], Token = ''tok123'', EnabledToolsets = [''all''],
          DynamicToolsets = False, ReadOnly = False, ExportTranslations = False,
          EnableCommandLogging = False, LogFilePath = []\<rparr>]\<rparr>"
  by (simp add: main_def Getenv_def Println_def request_def ServeHTTP_def route_run_stdio
      runStdioHandler_def Let_def RunE_main_path RunE_command_path http_Error_new_writer)

subsection \<open>Requests in flight\<close>

lemma RunE_no_call:
  "loop_calls (stdioCmd_RunE ws L) = [] \<Longrightarrow> \<exists>err. returned (stdioCmd_RunE ws L) = Some (Some err)"
  by (auto simp: stdioCmd_RunE_def Let_def split: if_splits sum.splits)

lemma RunE_call_returns:
  "loop_calls (stdioCmd_RunE ws L) = [c] \<Longrightarrow> returned (stdioCmd_RunE ws L) = L c"
  by (auto simp: stdioCmd_RunE_def Let_def split: if_splits sum.splits)

lemma handler_enter_loop:
  "loop_calls (stdioCmd_RunE ws (\<lambda>c. None)) = [c] \<Longrightarrow> handler_enter ws r = InLoop c"
  using RunE_call_returns [of ws "\<lambda>c. None" c]
  by (simp add: handler_enter_def runStdioHandler_def Let_def)

lemma handler_enter_refused:
  "returned (stdioCmd_RunE ws (\<lambda>c. None)) = Some (Some err) \<Longrightarrow>
   handler_enter ws r =
     Finished (http_Error (''Failed to run stdio server: '' @ Error err) 500 new_writer)"
  by (simp add: handler_enter_def runStdioHandler_def Let_def)

text \<open>
  One request alone: its handler entered, then its loop returned, it is finished with the
  reply that \<^verbatim>\<open>runStdioHandler\<close> gives for a loop that returns that value.
\<close>

lemma enter_then_return:
  assumes "loop_calls (stdioCmd_RunE ws (\<lambda>c. None)) = [c]"
  shows "run_events ws [Enter 0, Return 0 ret] [(r, Waiting)] =
           [(r, case response (runStdioHandler ws (\<lambda>c. Some ret) new_writer r) of
                  Some w \<Rightarrow> Finished w | None \<Rightarrow> InLoop c)]"
  by (simp add: run_events_def server_event_def handler_enter_loop [OF assms]
      handler_return_def)

text \<open>
  C8, as the claim states it, fails: the handler takes no permit. With the token resolved
  (the configuration after \<^verbatim>\<open>initConfig\<close>), two requests whose handlers are both
  entered, the first loop not returned, are both inside the protocol loop: two loops
  active at once. In the state in which \<^verbatim>\<open>main\<close> serves, the entry point fails for
  both, and no loop is active: neither request proceeds.
\<close>

theorem two_active_loops_counterexample:
  "run_events
     (initialized (package_init ''version'' [''all''] [''GITHUB_PERSONAL_ACCESS_TOKEN'' \<mapsto> ''tok123'']))
     [Enter 0, Enter 1]
     [(\<lparr>Method = ''POST'', Path = ''/run-stdio''\<rparr>, Waiting),
      (\<lparr>Method = ''POST'', Path = ''/run-stdio''\<rparr>, Waiting)]
   = [(\<lparr>Method = ''POST'', Path = ''/run-stdio''\<rparr>,
       InLoop \<lparr>Version = ''version'', Host = [], Token = ''tok123'', EnabledToolsets = [''all''],
               DynamicToolsets = False, ReadOnly = False, ExportTranslations = False,
               EnableCommandLogging = False, LogFilePath = []\<rparr>),
      (\<lparr>Method = ''POST'', Path = ''/run-stdio''\<rparr>,
       InLoop \<lparr>Version = ''version'', Host = [], Token = ''tok123'', EnabledToolsets = [''all''],
               DynamicToolsets = False, ReadOnly = False, ExportTranslations = False,
               EnableCommandLogging = False, LogFilePath = []\<rparr>)] \<and>
   active_loops
     (run_events
        (initialized (package_init ''version'' [''all''] [''GITHUB_PERSONAL_ACCESS_TOKEN'' \<mapsto> ''tok123'']))
        [Enter 0, Enter 1]
        [(\<lparr>Method = ''POST'', Path = ''/run-stdio''\<rparr>, Waiting),
         (\<lparr>Method = ''POST'', Path = ''/run-stdio''\<rparr>, Waiting)]) = 2 \<and>
   active_loops
     (run_events
        (package_init ''version'' [''all''] [''GITHUB_PERSONAL_ACCESS_TOKEN'' \<mapsto> ''tok123''])
        [Enter 0, Enter 1]
        [(\<lparr>Method = ''POST'', Path = ''/run-stdio''\<rparr>, Waiting),
         (\<lparr>Method = ''POST'', Path = ''/run-stdio''\<rparr>, Waiting)]) = 0"
  by (simp add: run_events_def server_event_def handler_enter_def active_loops_def
      RunE_command_path RunE_main_path runStdioHandler_def Let_def)

text \<open>
  C8, amended. The handler of \<^verbatim>\<open>/run-stdio\<close> holds no guard. For any two requests
  in flight together, the second entered before the loop of the first has returned: when
  the entry point passes its validation, both calls start a protocol loop, the two loops
  are active at once and neither request is rejected; when it fails its validation, both
  requests get the same 500 reply and no loop starts.
\<close>

theorem no_guard_on_run_stdio:
  "(loop_calls (stdioCmd_RunE ws (\<lambda>c. None)) = [c] \<longrightarrow>
      run_events ws [Enter 0, Enter 1] [(r1, Waiting), (r2, Waiting)]
        = [(r1, InLoop c), (r2, InLoop c)] \<and>
      active_loops (run_events ws [Enter 0, Enter 1] [(r1, Waiting), (r2, Waiting)]) = 2) \<and>
   (loop_calls (stdioCmd_RunE ws (\<lambda>c. None)) = [] \<longrightarrow>
      (\<exists>err. returned (stdioCmd_RunE ws (\<lambda>c. None)) = Some (Some err) \<and>
         run_events ws [Enter 0, Enter 1] [(r1, Waiting), (r2, Waiting)]
           = [(r1, Finished (http_Error (''Failed to run stdio server: '' @ Error err) 500
                               new_writer)),
              (r2, Finished (http_Error (''Failed to run stdio server: '' @ Error err) 500
                               new_writer))]) \<and>
      active_loops (run_events ws [Enter 0, Enter 1] [(r1, Waiting), (r2, Waiting)]) = 0)"
proof (intro conjI impI)
  assume a: "loop_calls (stdioCmd_RunE ws (\<lambda>c. None)) = [c]"
  show "run_events ws [Enter 0, Enter 1] [(r1, Waiting), (r2, Waiting)]
        = [(r1, InLoop c), (r2, InLoop c)]"
    by (simp add: run_events_def server_event_def handler_enter_loop [OF a])
  then show "active_loops (run_events ws [Enter 0, Enter 1] [(r1, Waiting), (r2, Waiting)]) = 2"
    by (simp add: active_loops_def)
next
  assume a: "loop_calls (stdioCmd_RunE ws (\<lambda>c. None)) = []"
  then obtain err where e: "returned (stdioCmd_RunE ws (\<lambda>c. None)) = Some (Some err)"
    using RunE_no_call by blast
  have r: "run_events ws [Enter 0, Enter 1] [(r1, Waiting), (r2, Waiting)]
           = [(r1, Finished (http_Error (''Failed to run stdio server: '' @ Error err) 500
                               new_writer)),
              (r2, Finished (http_Error (''Failed to run stdio server: '' @ Error err) 500
                               new_writer))]"
    by (simp add: run_events_def server_event_def handler_enter_refused [OF e])
  with e show "\<exists>err. returned (stdioCmd_RunE ws (\<lambda>c. None)) = Some (Some err) \<and>
         run_events ws [Enter 0, Enter 1] [(r1, Waiting), (r2, Waiting)]
           = [(r1, Finished (http_Error (''Failed to run stdio server: '' @ Error err) 500
                               new_writer)),
              (r2, Finished (http_Error (''Failed to run stdio server: '' @ Error err) 500
                               new_writer))]"
    by blast
  from r show "active_loops (run_events ws [Enter 0, Enter 1] [(r1, Waiting), (r2, Waiting)]) = 0"
    by (simp add: active_loops_def)
qed

theorem no_guard_on_run_stdio_witness:
  "loop_calls (stdioCmd_RunE
     (initialized (package_init ''version'' [''all''] [''GITHUB_PERSONAL_ACCESS_TOKEN'' \<mapsto> ''tok123'']))
     (\<lambda>c. None))
   = [\<lparr>Version = ''version'', Host = [], Token = ''tok123'', EnabledToolsets = [''all''],
       DynamicToolsets = False, ReadOnly = False, ExportTranslations = False,
       EnableCommandLogging = False, LogFilePath = []\<rparr>] \<and>
   run_events
     (initialized (package_init ''version'' [''all''] [''GITHUB_PERSONAL_ACCESS_TOKEN'' \<mapsto> ''tok123'']))
     [Enter 0, Enter 1]
     [(\<lparr>Method = ''POST'', Path = ''/run-stdio''\<rparr>, Waiting),
      (\<lparr>Method = ''GET'', Path = ''/run-stdio''\<rparr>, Waiting)]
   = [(\<lparr>Method = ''POST'', Path = ''/run-stdio''\<rparr>,
       InLoop \<lparr>Version = ''version'', Host = [], Token = ''tok123'', EnabledToolsets = [''all''],
               DynamicToolsets = False, ReadOnly = False, ExportTranslations = False,
               EnableCommandLogging = False, LogFilePath = []\<rparr>),
      (\<lparr>Method = ''GET'', Path = ''/run-stdio''\<rparr>,
       InLoop \<lparr>Version = ''version'', Host = [], Token = ''tok123'', EnabledToolsets = [''all''],
               DynamicToolsets = False, ReadOnly = False, ExportTranslations = False,
               EnableCommandLogging = False, LogFilePath = []\<rparr>)] \<and>
   loop_calls (stdioCmd_RunE (package_init ''version'' [''all''] Map.empty) (\<lambda>c. None)) = [] \<and>
   run_events (package_init ''version'' [''all''] Map.empty) [Enter 0, Enter 1]
     [(\<lparr>Method = ''POST'', Path = ''/run-stdio''\<rparr>, Waiting),
      (\<lparr>Method = ''GET'', Path = ''/run-stdio''\<rparr>, Waiting)]
   = [(\<lparr>Method = ''POST'', Path = ''/run-stdio''\<rparr>,
       Finished \<lparr>header = [''Content-Type'' \<mapsto> ''text/plain; charset=utf-8'',
                           ''X-Content-Type-Options'' \<mapsto> ''nosniff''],
                 status = Some 500,
                 body = ''Failed to run stdio server: GITHUB_PERSONAL_ACCESS_TOKEN not set\<newline>''\<rparr>),
      (\<lparr>Method = ''GET'', Path = ''/run-stdio''\<rparr>,
       Finished \<lparr>header = [''Content-Type'' \<mapsto> ''text/plain; charset=utf-8'',
                           ''X-Content-Type-Options'' \<mapsto> ''nosniff''],
                 status = Some 500,
                 body = ''Failed to run stdio server: GITHUB_PERSONAL_ACCESS_TOKEN not set\<newline>''\<rparr>)]"
proof -
  let ?w1 = "initialized (package_init ''version'' [''all'']
               [''GITHUB_PERSONAL_ACCESS_TOKEN'' \<mapsto> ''tok123''])"
  let ?w0 = "package_init ''version'' [''all''] Map.empty"
  let ?c = "\<lparr>Version = ''version'', Host = [], Token = ''tok123'', EnabledToolsets = [''all''],
             DynamicToolsets = False, ReadOnly = False, ExportTranslations = False,
             EnableCommandLogging = False, LogFilePath = []\<rparr>"
  let ?p = "\<lparr>Method = ''POST'', Path = ''/run-stdio''\<rparr>"
  let ?g = "\<lparr>Method = ''GET'', Path = ''/run-stdio''\<rparr>"
  show ?thesis
    using no_guard_on_run_stdio [of ?w1 ?c ?p ?g] no_guard_on_run_stdio [of ?w0 ?c ?p ?g]
    by (simp add: RunE_command_path RunE_main_path http_Error_new_writer)
qed

subsection \<open>The startup output\<close>

lemma main_stdout:
  "stdout (main args e ListenAndServe) =
     ''DEBUG: GITHUB_PERSONAL_ACCESS_TOKEN = '' @ Getenv e ''GITHUB_PERSONAL_ACCESS_TOKEN''
     @ ''\<newline>'' @ ''Listening on port ''
     @ (if Getenv e ''PORT'' = [] then ''8080'' else Getenv e ''PORT'') @ ''...\<newline>''"
  by (simp add: main_def Println_def Let_def split: option.split)

text \<open>
  C9, as the claim states it, fails: the first line that \<^verbatim>\<open>main\<close> prints holds the
  value of \<^verbatim>\<open>GITHUB_PERSONAL_ACCESS_TOKEN\<close>. Two runs that differ only in that value
  print different standard output.
\<close>

theorem token_printed_counterexample:
  "stdout (main [''github-mcp-server''] [''GITHUB_PERSONAL_ACCESS_TOKEN'' \<mapsto> ''tok123'']
             (\<lambda>addr. None))
     = ''DEBUG: GITHUB_PERSONAL_ACCESS_TOKEN = tok123\<newline>Listening on port 8080...\<newline>'' \<and>
   stdout (main [''github-mcp-server''] [''GITHUB_PERSONAL_ACCESS_TOKEN'' \<mapsto> ''tok456'']
             (\<lambda>addr. None))
     = ''DEBUG: GITHUB_PERSONAL_ACCESS_TOKEN = tok456\<newline>Listening on port 8080...\<newline>'' \<and>
   stdout (main [''github-mcp-server''] [''GITHUB_PERSONAL_ACCESS_TOKEN'' \<mapsto> ''tok123'']
             (\<lambda>addr. None))
     \<noteq> stdout (main [''github-mcp-server''] [''GITHUB_PERSONAL_ACCESS_TOKEN'' \<mapsto> ''tok456'']
             (\<lambda>addr. None))"
  by (simp add: main_stdout Getenv_def)

text \<open>
  C9, amended. At startup \<^verbatim>\<open>main\<close> writes the value of
  \<^verbatim>\<open>GITHUB_PERSONAL_ACCESS_TOKEN\<close> to standard output, in the line
  \<^verbatim>\<open>DEBUG: GITHUB_PERSONAL_ACCESS_TOKEN = \<close> followed by the value. Two runs that
  differ only in that value differ in that line and in nothing else: the rest of
  standard output, standard error, the exit status and the listener are the same, and
  the outputs are equal exactly when the values are.
\<close>

theorem startup_output_prints_token:
  "stdout (main args (e(''GITHUB_PERSONAL_ACCESS_TOKEN'' \<mapsto> t)) ListenAndServe) =
     ''DEBUG: GITHUB_PERSONAL_ACCESS_TOKEN = '' @ t @ ''\<newline>'' @ ''Listening on port ''
     @ (if Getenv e ''PORT'' = [] then ''8080'' else Getenv e ''PORT'') @ ''...\<newline>'' \<and>
   stderr (main args (e(''GITHUB_PERSONAL_ACCESS_TOKEN'' \<mapsto> t)) ListenAndServe)
     = stderr (main args (e(''GITHUB_PERSONAL_ACCESS_TOKEN'' \<mapsto> t')) ListenAndServe) \<and>
   exit_code (main args (e(''GITHUB_PERSONAL_ACCESS_TOKEN'' \<mapsto> t)) ListenAndServe)
     = exit_code (main args (e(''GITHUB_PERSONAL_ACCESS_TOKEN'' \<mapsto> t')) ListenAndServe) \<and>
   serving (main args (e(''GITHUB_PERSONAL_ACCESS_TOKEN'' \<mapsto> t)) ListenAndServe)
     = serving (main args (e(''GITHUB_PERSONAL_ACCESS_TOKEN'' \<mapsto> t')) ListenAndServe) \<and>
   (stdout (main args (e(''GITHUB_PERSONAL_ACCESS_TOKEN'' \<mapsto> t)) ListenAndServe)
      = stdout (main args (e(''GITHUB_PERSONAL_ACCESS_TOKEN'' \<mapsto> t')) ListenAndServe))
     = (t = t')"
proof -
  have port: "Getenv (e(''GITHUB_PERSONAL_ACCESS_TOKEN'' \<mapsto> x)) ''PORT'' = Getenv e ''PORT''"
    for x by (simp add: Getenv_def)
  have tok: "Getenv (e(''GITHUB_PERSONAL_ACCESS_TOKEN'' \<mapsto> x)) ''GITHUB_PERSONAL_ACCESS_TOKEN'' = x"
    for x by (simp add: Getenv_def)
  have rest: "stderr (main args (e(''GITHUB_PERSONAL_ACCESS_TOKEN'' \<mapsto> x)) ListenAndServe)
                = stderr (main args e ListenAndServe) \<and>
              exit_code (main args (e(''GITHUB_PERSONAL_ACCESS_TOKEN'' \<mapsto> x)) ListenAndServe)
                = exit_code (main args e ListenAndServe) \<and>
              serving (main args (e(''GITHUB_PERSONAL_ACCESS_TOKEN'' \<mapsto> x)) ListenAndServe)
                = serving (main args e ListenAndServe)"
    for x by (simp add: main_def Let_def port split: option.split)
  show ?thesis
    by (simp add: main_stdout port tok rest)
qed

subsection \<open>The catch-all pattern\<close>

lemma path_Clean_rooted: "\<exists>q. path_Clean p = CHR ''/'' # q"
  by (simp add: path_Clean_def)

lemma cleanPath_rooted: "\<exists>q. cleanPath p = CHR ''/'' # q"
proof (cases "p = []")
  case True
  then show ?thesis by (simp add: cleanPath_def)
next
  case False
  define p1 where "p1 = (if hd p \<noteq> CHR ''/'' then ''/'' @ p else p)"
  obtain q where q: "path_Clean p1 = CHR ''/'' # q" using path_Clean_rooted by blast
  have "\<exists>t. p1 = CHR ''/'' # t"
    using False by (cases p) (auto simp: p1_def)
  then show ?thesis
    using False q unfolding cleanPath_def p1_def [symmetric] Let_def by auto
qed

lemma subtrees_main_mux:
  "filter (\<lambda>e. is_subtree_of (fst e) (CHR ''/'' # q)) main_mux = [(''/'', rootFunc)]"
  by (simp add: main_mux_def HandleFunc_def is_subtree_of_def)

lemma match_root:
  assumes "p = CHR ''/'' # q" and "p \<noteq> ''/run-stdio''" and "p \<noteq> ''/tools''"
  shows "mux_match main_mux p = Some rootFunc"
  using assms by (simp add: mux_match_def map_of_main_mux subtrees_main_mux)

text \<open>
  C10, as the claim states it, fails for a path that is not clean: the multiplexer
  answers \<^verbatim>\<open>GET //does-not-exist\<close> with a redirect to
  \<^verbatim>\<open>/does-not-exist\<close>, and the handler of \<^verbatim>\<open>/\<close> is not called.
\<close>

theorem unclean_path_redirected_counterexample:
  "request ''version'' [''all''] Map.empty (\<lambda>c. None)
     \<lparr>Method = ''GET'', Path = ''//does-not-exist''\<rparr>
   = \<lparr>reply = Redirected ''/does-not-exist'', loops_started = []\<rparr>"
proof -
  have c: "cleanPath ''//does-not-exist'' = ''/does-not-exist''" by code_simp
  show ?thesis
    by (simp add: request_def ServeHTTP_def mux_Handler_def no_redirect_main_mux c)
qed

text \<open>
  C10, amended. For every request whose path is clean (\<^verbatim>\<open>cleanPath\<close> leaves it as it
  is) and is neither \<^verbatim>\<open>/run-stdio\<close> nor \<^verbatim>\<open>/tools\<close>, with any method, the handler
  of the pattern \<^verbatim>\<open>/\<close> replies: status 200 and the body
  \<^verbatim>\<open>GitHub MCP Server is running\<close>; that covers \<^verbatim>\<open>/\<close> itself and every unknown
  clean path, so there is no 404 for them. A request whose path is not clean does not
  reach the handler: for every method but \<^verbatim>\<open>CONNECT\<close>, and the request target
  \<^verbatim>\<open>*\<close> apart, the multiplexer answers it with a redirect to the clean path.
\<close>

theorem root_pattern_serves_clean_paths:
  "(cleanPath (Path r) = Path r \<and> Path r \<noteq> ''/run-stdio'' \<and> Path r \<noteq> ''/tools'' \<longrightarrow>
      request ver D e RunStdioServer r =
        \<lparr>reply = Reply \<lparr>header = Map.empty, status = Some 200,
                        body = ''GitHub MCP Server is running\<newline>''\<rparr>,
         loops_started = []\<rparr>) \<and>
   (cleanPath (Path r) \<noteq> Path r \<and> Path r \<noteq> ''*'' \<and> Method r \<noteq> ''CONNECT'' \<longrightarrow>
      request ver D e RunStdioServer r =
        \<lparr>reply = Redirected (cleanPath (Path r)), loops_started = []\<rparr>)"
proof (intro conjI impI)
  assume a: "cleanPath (Path r) = Path r \<and> Path r \<noteq> ''/run-stdio'' \<and> Path r \<noteq> ''/tools''"
  obtain q where q: "Path r = CHR ''/'' # q"
    using cleanPath_rooted [of "Path r"] a by auto
  have "mux_match main_mux (Path r) = Some rootFunc"
    using match_root [OF q] a by simp
  then have "mux_Handler main_mux r = Handle rootFunc"
    using a by (simp add: mux_Handler_def no_redirect_main_mux mux_handler_def)
  then show "request ver D e RunStdioServer r =
        \<lparr>reply = Reply \<lparr>header = Map.empty, status = Some 200,
                        body = ''GitHub MCP Server is running\<newline>''\<rparr>,
         loops_started = []\<rparr>"
    using q by (simp add: request_def ServeHTTP_def rootHandler_def Fprintln_new_writer)
next
  assume "cleanPath (Path r) \<noteq> Path r \<and> Path r \<noteq> ''*'' \<and> Method r \<noteq> ''CONNECT''"
  then show "request ver D e RunStdioServer r =
        \<lparr>reply = Redirected (cleanPath (Path r)), loops_started = []\<rparr>"
    by (simp add: request_def ServeHTTP_def mux_Handler_def no_redirect_main_mux)
qed

theorem root_pattern_serves_clean_paths_witness:
  "cleanPath ''/does-not-exist'' = ''/does-not-exist'' \<and>
   request ''version'' [''all''] Map.empty (\<lambda>c. None)
     \<lparr>Method = ''GET'', Path = ''/does-not-exist''\<rparr> =
     \<lparr>reply = Reply \<lparr>header = Map.empty, status = Some 200,
                     body = ''GitHub MCP Server is running\<newline>''\<rparr>,
      loops_started = []\<rparr> \<and>
   cleanPath ''/'' = ''/'' \<and>
   request ''version'' [''all''] Map.empty (\<lambda>c. None) \<lparr>Method = ''DELETE'', Path = ''/''\<rparr> =
     \<lparr>reply = Reply \<lparr>header = Map.empty, status = Some 200,
                     body = ''GitHub MCP Server is running\<newline>''\<rparr>,
      loops_started = []\<rparr> \<and>
   cleanPath ''/tools/../x'' = ''/x'' \<and>
   request ''version'' [''all''] Map.empty (\<lambda>c. None)
     \<lparr>Method = ''GET'', Path = ''/tools/../x''\<rparr> =
     \<lparr>reply = Redirected ''/x'', loops_started = []\<rparr>"
proof -
  have c1: "cleanPath ''/does-not-exist'' = ''/does-not-exist''" by code_simp
  have c2: "cleanPath ''/'' = ''/''" by code_simp
  have c3: "cleanPath ''/tools/../x'' = ''/x''" by code_simp
  show ?thesis
    using c1 c2 c3
      root_pattern_serves_clean_paths
        [of "\<lparr>Method = ''GET'', Path = ''/does-not-exist''\<rparr>" "''version''" "[''all'']"
            Map.empty "\<lambda>c. None"]
      root_pattern_serves_clean_paths
        [of "\<lparr>Method = ''DELETE'', Path = ''/''\<rparr>" "''version''" "[''all'']"
            Map.empty "\<lambda>c. None"]
      root_pattern_serves_clean_paths
        [of "\<lparr>Method = ''GET'', Path = ''/tools/../x''\<rparr>" "''version''" "[''all'']"
            Map.empty "\<lambda>c. None"]
    by simp
qed

end
